theory Spec2Isabelle
  imports Main "HOL-Library.Word"
begin

section \<open>Errors\<close>

text \<open>
  The reconciler sees three kinds of Go \<^verbatim>\<open>error\<close> values: status errors of the API
  server (with a reason that \<^verbatim>\<open>apierrors.IsNotFound\<close> inspects), any other error
  value (transport failures, cancellation, the errors of \<^verbatim>\<open>resource.ParseQuantity\<close>),
  and errors wrapped with a message by \<^verbatim>\<open>errors.Wrapf\<close>. A nil error is \<open>None\<close>.
\<close>

datatype StatusReason =
    StatusReasonUnknown
  | StatusReasonNotFound
  | StatusReasonAlreadyExists
  | StatusReasonConflict
  | StatusReasonForbidden
  | StatusReasonTimeout

datatype error =
    StatusError StatusReason
  | ErrorString string
  | Wrapped error string

text \<open>\<^verbatim>\<open>errors.Wrapf(err, format, args...)\<close> returns nil when \<open>err\<close> is nil.\<close>

definition Wrapf :: "error option \<Rightarrow> string \<Rightarrow> error option" where
  "Wrapf err msg = (case err of None \<Rightarrow> None | Some e \<Rightarrow> Some (Wrapped e msg))"

text \<open>\<^verbatim>\<open>apierrors.ReasonForError\<close> looks for a status error along the chain of causes.\<close>

fun ReasonForError :: "error \<Rightarrow> StatusReason" where
  "ReasonForError (StatusError r) = r"
| "ReasonForError (ErrorString s) = StatusReasonUnknown"
| "ReasonForError (Wrapped e m) = ReasonForError e"

definition IsNotFound :: "error \<Rightarrow> bool" where
  "IsNotFound err = (ReasonForError err = StatusReasonNotFound)"

section \<open>Data model\<close>

record TypeMeta =
  Kind :: string
  APIVersion :: string

record OwnerReference =
  owner_APIVersion :: string
  owner_Kind :: string
  owner_Name :: string
  owner_UID :: string
  owner_BlockOwnerDeletion :: "bool option"

record ObjectMeta =
  Name :: string
  GenerateName :: string
  Namespace :: string
  UID :: string
  ResourceVersion :: string
  Labels :: "string \<rightharpoonup> string"
  OwnerReferences :: "OwnerReference list"

definition empty_ObjectMeta :: ObjectMeta where
  "empty_ObjectMeta =
     \<lparr>Name = [], GenerateName = [], Namespace = [], UID = [], ResourceVersion = [],
      Labels = Map.empty, OwnerReferences = []\<rparr>"

datatype LocalObjectReference = LocalObjectReference (ref_Name: string)

text \<open>
  \<open>Parameters\<close> is a Go \<^verbatim>\<open>map[string]string\<close> that the reconciler only ranges over.
  A range loop visits every entry once, in an order the runtime picks; the list holds
  the entries in the order the loop visits them.
\<close>

record InstallationSpec =
  Reference :: string
  Action :: string
  PorterVersion :: string
  ServiceAccount :: string
  CredentialSets :: "string list"
  ParameterSets :: "string list"
  Parameters :: "(string \<times> string) list"
  OutputsVolumeSize :: string

record InstallationStatus =
  ActiveJob :: LocalObjectReference
  LastJob :: LocalObjectReference

record Installation =
  inst_TypeMeta :: TypeMeta
  inst_ObjectMeta :: ObjectMeta
  inst_Spec :: InstallationSpec
  inst_Status :: InstallationStatus

datatype NamespacedName = NamespacedName (nn_Namespace: string) (nn_Name: string)

datatype Request = Request (req_NamespacedName: NamespacedName)

definition req_Namespace :: "Request \<Rightarrow> string" where
  "req_Namespace req = nn_Namespace (req_NamespacedName req)"

definition req_Name :: "Request \<Rightarrow> string" where
  "req_Name req = nn_Name (req_NamespacedName req)"

record Result =
  Requeue :: bool
  RequeueAfter :: nat

subsection \<open>Kubernetes objects the reconciler builds\<close>

datatype Format = DecimalExponent | BinarySI | DecimalSI

text \<open>A parsed \<^verbatim>\<open>resource.Quantity\<close>: unscaled value, decimal scale, format.\<close>

datatype Quantity = Quantity int int Format

datatype PersistentVolumeAccessMode = ReadWriteOnce | ReadOnlyMany | ReadWriteMany

record ResourceRequirements =
  Requests :: "string \<rightharpoonup> Quantity"

record PersistentVolumeClaimSpec =
  AccessModes :: "PersistentVolumeAccessMode list"
  Resources :: ResourceRequirements

record PersistentVolumeClaim =
  pvc_ObjectMeta :: ObjectMeta
  pvc_Spec :: PersistentVolumeClaimSpec

datatype PullPolicy = PullAlways | PullNever | PullIfNotPresent

datatype VolumeSource =
    PersistentVolumeClaimVolumeSource string
  | SecretVolumeSource string "bool option"

datatype Volume = Volume string VolumeSource

datatype EnvVar = EnvVar string string

datatype EnvFromSource = SecretEnvSource string "bool option"

datatype VolumeMount = VolumeMount string string

record Container =
  ctr_Name :: string
  Image :: string
  ImagePullPolicy :: PullPolicy
  Args :: "string list"
  Env :: "EnvVar list"
  EnvFrom :: "EnvFromSource list"
  VolumeMounts :: "VolumeMount list"

record PodSpec =
  Volumes :: "Volume list"
  Containers :: "Container list"
  RestartPolicy :: string
  ServiceAccountName :: string
  ImagePullSecrets :: "LocalObjectReference list"

record PodTemplateSpec =
  tmpl_ObjectMeta :: ObjectMeta
  tmpl_Spec :: PodSpec

record JobSpec =
  Completions :: "32 word option"
  BackoffLimit :: "32 word option"
  Template :: PodTemplateSpec

record Job =
  job_ObjectMeta :: ObjectMeta
  job_Spec :: JobSpec

definition empty_Job :: Job where
  "empty_Job =
     \<lparr>job_ObjectMeta = empty_ObjectMeta,
      job_Spec = \<lparr>Completions = None, BackoffLimit = None,
        Template = \<lparr>tmpl_ObjectMeta = empty_ObjectMeta,
          tmpl_Spec = \<lparr>Volumes = [], Containers = [], RestartPolicy = [],
            ServiceAccountName = [], ImagePullSecrets = []\<rparr>\<rparr>\<rparr>\<rparr>"

record ConfigMap =
  cm_ObjectMeta :: ObjectMeta
  Data :: "string \<rightharpoonup> string"

definition empty_ConfigMap :: ConfigMap where
  "empty_ConfigMap = \<lparr>cm_ObjectMeta = empty_ObjectMeta, Data = Map.empty\<rparr>"

section \<open>The cluster behind \<^verbatim>\<open>client.Client\<close>\<close>

text \<open>
  The API server is an external collaborator. It is a store of objects by namespace and
  name, together with a schedule of injected failures (the \<open>n\<close>-th request of the
  client fails with \<open>faults n\<close> when that is not \<open>None\<close>), so that every outcome of a
  request can occur. Every request is recorded with its outcome in \<open>calls\<close>, in the
  order the requests are made. Log output of the reconciler is not modelled.
\<close>

datatype request =
    GetInstallation NamespacedName
  | GetJob NamespacedName
  | GetConfigMap NamespacedName
  | CreatePersistentVolumeClaim PersistentVolumeClaim
  | CreateJob Job

record cluster =
  installations :: "NamespacedName \<rightharpoonup> Installation"
  jobs :: "NamespacedName \<rightharpoonup> Job"
  persistentvolumeclaims :: "NamespacedName \<rightharpoonup> PersistentVolumeClaim"
  configmaps :: "NamespacedName \<rightharpoonup> ConfigMap"
  faults :: "nat \<Rightarrow> error option"
  calls :: "(request \<times> error option) list"

definition record_call :: "cluster \<Rightarrow> request \<Rightarrow> error option \<Rightarrow> cluster" where
  "record_call c rq outcome = c\<lparr>calls := calls c @ [(rq, outcome)]\<rparr>"

definition next_fault :: "cluster \<Rightarrow> error option" where
  "next_fault c = faults c (length (calls c))"

text \<open>
  \<^verbatim>\<open>r.Get(ctx, key, obj)\<close>: the injected failure if there is one, a not-found status
  error if the store has no object under the key, the object otherwise.
\<close>

definition get_outcome :: "error option \<Rightarrow> 'a option \<Rightarrow> error + 'a" where
  "get_outcome fault stored =
     (case fault of
        Some e \<Rightarrow> Inl e
      | None \<Rightarrow> (case stored of
                  None \<Rightarrow> Inl (StatusError StatusReasonNotFound)
                | Some obj \<Rightarrow> Inr obj))"

definition outcome_error :: "error + 'a \<Rightarrow> error option" where
  "outcome_error r = (case r of Inl e \<Rightarrow> Some e | Inr obj \<Rightarrow> None)"

definition Get_Installation ::
  "cluster \<Rightarrow> NamespacedName \<Rightarrow> (error + Installation) \<times> cluster" where
  "Get_Installation c key =
     (let r = get_outcome (next_fault c) (installations c key)
      in (r, record_call c (GetInstallation key) (outcome_error r)))"

definition Get_Job :: "cluster \<Rightarrow> NamespacedName \<Rightarrow> (error + Job) \<times> cluster" where
  "Get_Job c key =
     (let r = get_outcome (next_fault c) (jobs c key)
      in (r, record_call c (GetJob key) (outcome_error r)))"

definition Get_ConfigMap :: "cluster \<Rightarrow> NamespacedName \<Rightarrow> (error + ConfigMap) \<times> cluster" where
  "Get_ConfigMap c key =
     (let r = get_outcome (next_fault c) (configmaps c key)
      in (r, record_call c (GetConfigMap key) (outcome_error r)))"

text \<open>
  \<^verbatim>\<open>r.Create(ctx, obj)\<close>: the injected failure if there is one, an already-exists
  status error if the store holds an object of that namespace and name, and otherwise
  the object is stored.
\<close>

definition create_outcome :: "error option \<Rightarrow> 'a option \<Rightarrow> error option" where
  "create_outcome fault stored =
     (case fault of
        Some e \<Rightarrow> Some e
      | None \<Rightarrow> (case stored of
                  None \<Rightarrow> None
                | Some obj \<Rightarrow> Some (StatusError StatusReasonAlreadyExists)))"

definition object_key :: "ObjectMeta \<Rightarrow> NamespacedName" where
  "object_key m = NamespacedName (Namespace m) (Name m)"

definition Create_PersistentVolumeClaim ::
  "cluster \<Rightarrow> PersistentVolumeClaim \<Rightarrow> error option \<times> cluster" where
  "Create_PersistentVolumeClaim c pvc =
     (let key = object_key (pvc_ObjectMeta pvc);
          err = create_outcome (next_fault c) (persistentvolumeclaims c key);
          c' = (if err = None
                then c\<lparr>persistentvolumeclaims := (persistentvolumeclaims c)(key \<mapsto> pvc)\<rparr>
                else c)
      in (err, record_call c' (CreatePersistentVolumeClaim pvc) err))"

definition Create_Job :: "cluster \<Rightarrow> Job \<Rightarrow> error option \<times> cluster" where
  "Create_Job c job =
     (let key = object_key (job_ObjectMeta job);
          err = create_outcome (next_fault c) (jobs c key);
          c' = (if err = None then c\<lparr>jobs := (jobs c)(key \<mapsto> job)\<rparr> else c)
      in (err, record_call c' (CreateJob job) err))"

section \<open>Configuration resolution\<close>

text \<open>
  Lines 272 to 288 of \<^verbatim>\<open>getOutputsVolumeSize\<close>: the size as a string, before it is
  parsed. After a failed \<^verbatim>\<open>Get\<close> the configmap is the freshly allocated empty one.
\<close>

definition getOutputsVolumeSize_string :: "cluster \<Rightarrow> Installation \<Rightarrow> string \<times> cluster" where
  "getOutputsVolumeSize_string c inst =
     (if OutputsVolumeSize (inst_Spec inst) \<noteq> []
      then (OutputsVolumeSize (inst_Spec inst), c)
      else
        (case Get_ConfigMap c (NamespacedName (Namespace (inst_ObjectMeta inst)) ''porter'') of
           (r, c') \<Rightarrow>
             (let cfg = (case r of Inl err \<Rightarrow> empty_ConfigMap | Inr obj \<Rightarrow> obj)
              in (case Data cfg ''outputsVolumeSize'' of
                    Some v \<Rightarrow> (v, c')
                  | None \<Rightarrow> (''128Mi'', c')))))"

text \<open>
  \<^verbatim>\<open>resource.ParseQuantity\<close> belongs to the Kubernetes library; the functions that
  need it take it as the parameter \<open>ParseQuantity\<close>.
\<close>

definition getOutputsVolumeSize ::
  "(string \<Rightarrow> error + Quantity) \<Rightarrow> cluster \<Rightarrow> Installation \<Rightarrow> (error + Quantity) \<times> cluster" where
  "getOutputsVolumeSize ParseQuantity c inst =
     (case getOutputsVolumeSize_string c inst of
        (outputsVolumeSize, c') \<Rightarrow>
          (case ParseQuantity outputsVolumeSize of
             Inl err \<Rightarrow>
               (Inl (Wrapped err (''invalid outputsVolumeSize '' @ outputsVolumeSize)), c')
           | Inr qty \<Rightarrow> (Inr qty, c')))"

definition getPorterImageVersion ::
  "cluster \<Rightarrow> Installation \<Rightarrow> (string \<times> PullPolicy) \<times> cluster" where
  "getPorterImageVersion c inst =
     (case
        (if PorterVersion (inst_Spec inst) \<noteq> []
         then (PorterVersion (inst_Spec inst), c)
         else
           (case Get_ConfigMap c (NamespacedName (Namespace (inst_ObjectMeta inst)) ''porter'') of
              (r, c') \<Rightarrow>
                (let cfg = (case r of Inl err \<Rightarrow> empty_ConfigMap | Inr obj \<Rightarrow> obj)
                 in (case Data cfg ''porterVersion'' of
                       Some v \<Rightarrow> (v, c')
                     | None \<Rightarrow> (''latest'', c')))))
      of (porterVersion, c') \<Rightarrow>
        ((porterVersion,
          (if porterVersion = ''canary'' \<or> porterVersion = ''latest''
           then PullAlways else PullIfNotPresent)), c'))"

definition getPorterAgentServiceAccount :: "cluster \<Rightarrow> Installation \<Rightarrow> string \<times> cluster" where
  "getPorterAgentServiceAccount c inst =
     (if ServiceAccount (inst_Spec inst) \<noteq> []
      then (ServiceAccount (inst_Spec inst), c)
      else
        (case Get_ConfigMap c (NamespacedName (Namespace (inst_ObjectMeta inst)) ''porter'') of
           (r, c') \<Rightarrow>
             (let cfg = (case r of Inl err \<Rightarrow> empty_ConfigMap | Inr obj \<Rightarrow> obj)
              in (case Data cfg ''serviceAccount'' of
                    Some v \<Rightarrow> (v, c')
                  | None \<Rightarrow> ([], c')))))"

section \<open>Creating the volume claim and the job\<close>

text \<open>
  \<^verbatim>\<open>manifest.IsCoreAction\<close> belongs to Porter, outside this repository: an action is
  a core action when it is one of the lifecycle verbs install, upgrade and uninstall.
\<close>

definition IsCoreAction :: "string \<Rightarrow> bool" where
  "IsCoreAction action = (action \<in> set [''install'', ''upgrade'', ''uninstall''])"

text \<open>Lines 128 to 150 of \<^verbatim>\<open>createJobForInstallation\<close>: the arguments of porter.\<close>

definition porter_args :: "Installation \<Rightarrow> string list" where
  "porter_args inst =
     (let args0 = (if IsCoreAction (Action (inst_Spec inst))
                   then [] @ [Action (inst_Spec inst)]
                   else [] @ [''invoke'', ''--action='' @ Action (inst_Spec inst)]);
          args1 = args0 @
                  [Name (inst_ObjectMeta inst),
                   ''--reference='' @ Reference (inst_Spec inst),
                   ''--debug'',
                   ''--debug-plugins'',
                   ''--driver=kubernetes''];
          args2 = foldl (\<lambda>args c. args @ [''-c='' @ c]) args1 (CredentialSets (inst_Spec inst));
          args3 = foldl (\<lambda>args p. args @ [''-p='' @ p]) args2 (ParameterSets (inst_Spec inst))
      in foldl (\<lambda>args (k, v). args @ [''--param='' @ k @ ''='' @ v]) args3
           (Parameters (inst_Spec inst)))"

text \<open>Lines 97 to 115: the claim for the volume shared with the invocation image.\<close>

definition porter_pvc :: "string \<Rightarrow> Installation \<Rightarrow> Quantity \<Rightarrow> PersistentVolumeClaim" where
  "porter_pvc jobName inst outputsReq =
     \<lparr>pvc_ObjectMeta = empty_ObjectMeta
        \<lparr>Name := jobName,
         Namespace := Namespace (inst_ObjectMeta inst),
         Labels := [''porter'' \<mapsto> ''true'',
                    ''installation'' \<mapsto> Name (inst_ObjectMeta inst),
                    ''job'' \<mapsto> jobName]\<rparr>,
      pvc_Spec =
        \<lparr>AccessModes = [ReadWriteOnce],
         Resources = \<lparr>Requests = [''storage'' \<mapsto> outputsReq]\<rparr>\<rparr>\<rparr>"

text \<open>Lines 152 to 264: the job that runs porter.\<close>

definition porter_job ::
  "string \<Rightarrow> Installation \<Rightarrow> PersistentVolumeClaim \<Rightarrow> string \<Rightarrow> PullPolicy \<Rightarrow> string \<Rightarrow>
   string list \<Rightarrow> Job" where
  "porter_job jobName inst pvc img pullPolicy serviceAccount args =
     \<lparr>job_ObjectMeta = empty_ObjectMeta
        \<lparr>Name := jobName,
         Namespace := Namespace (inst_ObjectMeta inst),
         Labels := [''porter'' \<mapsto> ''true'',
                    ''installation'' \<mapsto> Name (inst_ObjectMeta inst)]\<rparr>,
      job_Spec =
        \<lparr>Completions = Some 1,
         BackoffLimit = Some 0,
         Template =
           \<lparr>tmpl_ObjectMeta = empty_ObjectMeta
              \<lparr>GenerateName := jobName,
               Namespace := Namespace (inst_ObjectMeta inst),
               Labels := [''porter'' \<mapsto> ''true'',
                          ''installation'' \<mapsto> Name (inst_ObjectMeta inst)],
               OwnerReferences :=
                 [\<lparr>owner_APIVersion = APIVersion (inst_TypeMeta inst),
                   owner_Kind = Kind (inst_TypeMeta inst),
                   owner_Name = Name (inst_ObjectMeta inst),
                   owner_UID = UID (inst_ObjectMeta inst),
                   owner_BlockOwnerDeletion = Some True\<rparr>]\<rparr>,
            tmpl_Spec =
              \<lparr>Volumes =
                 [Volume ''porter-shared''
                    (PersistentVolumeClaimVolumeSource (Name (pvc_ObjectMeta pvc))),
                  Volume ''porter-config'' (SecretVolumeSource ''porter-config'' (Some True))],
               Containers =
                 [\<lparr>ctr_Name = jobName,
                   Image = img,
                   ImagePullPolicy = pullPolicy,
                   Args = args,
                   Env =
                     [EnvVar ''KUBE_NAMESPACE'' (Namespace (inst_ObjectMeta inst)),
                      EnvVar ''IN_CLUSTER'' ''true'',
                      EnvVar ''LABELS''
                        (''porter=true installation='' @ Name (inst_ObjectMeta inst)),
                      EnvVar ''JOB_VOLUME_NAME'' (Name (pvc_ObjectMeta pvc)),
                      EnvVar ''JOB_VOLUME_PATH'' ''/porter-shared'',
                      EnvVar ''CLEANUP_JOBS'' ''false''],
                   EnvFrom = [SecretEnvSource ''porter-env'' (Some True)],
                   VolumeMounts =
                     [VolumeMount ''porter-shared'' ''/porter-shared'',
                      VolumeMount ''porter-config'' ''/porter-config'']\<rparr>],
               RestartPolicy = ''Never'',
               ServiceAccountName = serviceAccount,
               ImagePullSecrets = []\<rparr>\<rparr>\<rparr>\<rparr>"

definition createJobForInstallation ::
  "(string \<Rightarrow> error + Quantity) \<Rightarrow> cluster \<Rightarrow> string \<Rightarrow> Installation \<Rightarrow>
   error option \<times> cluster" where
  "createJobForInstallation ParseQuantity c jobName inst =
     (case getOutputsVolumeSize ParseQuantity c inst of
        (Inl err, c1) \<Rightarrow> (Some err, c1)
      | (Inr outputsReq, c1) \<Rightarrow>
          (let pvc = porter_pvc jobName inst outputsReq
           in (case Create_PersistentVolumeClaim c1 pvc of
                 (Some err, c2) \<Rightarrow> (Some err, c2)
               | (None, c2) \<Rightarrow>
                   (case getPorterImageVersion c2 inst of
                      ((porterVersion, pullPolicy), c3) \<Rightarrow>
                        (let img = ''ghcr.io/getporter/porter:kubernetes-'' @ porterVersion
                         in (case getPorterAgentServiceAccount c3 inst of
                               (serviceAccount, c4) \<Rightarrow>
                                 (let args = porter_args inst;
                                      porterJob = porter_job jobName inst pvc img pullPolicy
                                                    serviceAccount args
                                  in (case Create_Job c4 porterJob of
                                        (err, c5) \<Rightarrow>
                                          (Wrapf err
                                             (''error creating job for Installation '' @
                                              Namespace (inst_ObjectMeta inst) @ ''/'' @
                                              Name (inst_ObjectMeta inst) @ ''@'' @
                                              ResourceVersion (inst_ObjectMeta inst)),
                                           c5)))))))))"

section \<open>The reconciliation pass\<close>

definition Reconcile ::
  "(string \<Rightarrow> error + Quantity) \<Rightarrow> cluster \<Rightarrow> Request \<Rightarrow>
   (Result \<times> error option) \<times> cluster" where
  "Reconcile ParseQuantity c req =
     (case Get_Installation c (req_NamespacedName req) of
        (Inl err, c1) \<Rightarrow> ((\<lparr>Requeue = False, RequeueAfter = 0\<rparr>, None), c1)
      | (Inr inst, c1) \<Rightarrow>
          (let jobName = req_Name req @ ''-'' @ ResourceVersion (inst_ObjectMeta inst)
           in (case Get_Job c1 (NamespacedName (req_Namespace req) jobName) of
                 (Inr porterJob, c2) \<Rightarrow> ((\<lparr>Requeue = False, RequeueAfter = 0\<rparr>, None), c2)
               | (Inl err, c2) \<Rightarrow>
                   (if IsNotFound err
                    then (case createJobForInstallation ParseQuantity c2 jobName inst of
                            (Some err', c3) \<Rightarrow>
                              ((\<lparr>Requeue = False, RequeueAfter = 0\<rparr>, Some err'), c3)
                          | (None, c3) \<Rightarrow>
                              ((\<lparr>Requeue = False, RequeueAfter = 0\<rparr>, None), c3))
                    else ((\<lparr>Requeue = False, RequeueAfter = 0\<rparr>,
                           Wrapf (Some err)
                             (''could not query for the bundle installation job '' @
                              req_Namespace req @ ''/'' @ Name (job_ObjectMeta empty_Job))),
                          c2)))))"

section \<open>Observing a pass\<close>

text \<open>
  What a pass did is read off the requests it added to \<open>calls\<close>.
\<close>

fun is_create :: "request \<Rightarrow> bool" where
  "is_create (CreatePersistentVolumeClaim pvc) = True"
| "is_create (CreateJob job) = True"
| "is_create rq = False"

fun is_create_job :: "request \<Rightarrow> bool" where
  "is_create_job (CreateJob job) = True"
| "is_create_job rq = False"

fun is_create_pvc :: "request \<Rightarrow> bool" where
  "is_create_pvc (CreatePersistentVolumeClaim pvc) = True"
| "is_create_pvc rq = False"

fun is_config_read :: "request \<Rightarrow> bool" where
  "is_config_read (GetConfigMap key) = True"
| "is_config_read rq = False"

definition config_reads :: "(request \<times> error option) list \<Rightarrow> bool" where
  "config_reads gs = list_all (\<lambda>x. is_config_read (fst x)) gs"

definition new_calls :: "cluster \<Rightarrow> cluster \<Rightarrow> (request \<times> error option) list" where
  "new_calls c c' = drop (length (calls c)) (calls c')"

text \<open>
  Two clusters with the same stores and fault schedule; the second has made the further
  requests \<open>gs\<close>.
\<close>

definition extends :: "cluster \<Rightarrow> (request \<times> error option) list \<Rightarrow> cluster \<Rightarrow> bool" where
  "extends c gs c' = (c' = c\<lparr>calls := calls c @ gs\<rparr>)"

text \<open>
  The identity of the execution job in the words of the specification: the name of the
  Installation, a dash and its current revision token, in the namespace of the Installation.
\<close>

definition derived_job_identity :: "Installation \<Rightarrow> NamespacedName" where
  "derived_job_identity inst =
     NamespacedName (Namespace (inst_ObjectMeta inst))
       (Name (inst_ObjectMeta inst) @ ''-'' @ ResourceVersion (inst_ObjectMeta inst))"

text \<open>
  The precedence of the specification: the field of the Installation when it is not empty,
  else the value of the key in the porter configmap when the configmap is retrieved and has
  the key, else the default.
\<close>

definition resolve_setting :: "string \<Rightarrow> ConfigMap option \<Rightarrow> string \<Rightarrow> string \<Rightarrow> string" where
  "resolve_setting override config key fallback =
     (if override \<noteq> [] then override
      else (case config of
              None \<Rightarrow> fallback
            | Some cfg \<Rightarrow> (case Data cfg key of None \<Rightarrow> fallback | Some v \<Rightarrow> v)))"

text \<open>The porter configmap of the namespace of the Installation, when a read retrieves it.\<close>

definition porter_configmap :: "cluster \<Rightarrow> Installation \<Rightarrow> ConfigMap option" where
  "porter_configmap c inst =
     (case fst (Get_ConfigMap c (NamespacedName (Namespace (inst_ObjectMeta inst)) ''porter'')) of
        Inl err \<Rightarrow> None
      | Inr cfg \<Rightarrow> Some cfg)"

text \<open>The cluster whose stored Installations have their status fields replaced by \<open>f\<close>.\<close>

definition set_status :: "(Installation \<Rightarrow> InstallationStatus) \<Rightarrow> cluster \<Rightarrow> cluster" where
  "set_status f c =
     c\<lparr>installations :=
         (\<lambda>key. map_option (\<lambda>inst. inst\<lparr>inst_Status := f inst\<rparr>) (installations c key))\<rparr>"

section \<open>Example clusters\<close>

text \<open>
  The end-to-end scenario of the specification: the Installation \<open>wordpress\<close> at revision 5
  in a cluster without a porter configmap.

  \<open>sample_ParseQuantity\<close> is a table of what \<^verbatim>\<open>resource.ParseQuantity\<close> answers on the
  four size strings of the examples: the binary quantities 64Mi, 128Mi and 256Mi, and the
  format error of the library on \<open>notasize\<close>. It answers the format error on every other
  string too, where the library may differ; no example asks it about another string.
\<close>

definition ErrFormatWrong :: error where
  "ErrFormatWrong =
     ErrorString (''quantities must match the regular expression '' @ [CHR 0x27] @
                  ''^([+-]?[0-9.]+)([eEinumkKMGTP]*[-+]?[0-9]*)$'' @ [CHR 0x27])"

definition sample_ParseQuantity :: "string \<Rightarrow> error + Quantity" where
  "sample_ParseQuantity s =
     (if s = ''64Mi'' then Inr (Quantity 67108864 0 BinarySI)
      else if s = ''128Mi'' then Inr (Quantity 134217728 0 BinarySI)
      else if s = ''256Mi'' then Inr (Quantity 268435456 0 BinarySI)
      else Inl ErrFormatWrong)"

definition wordpress :: Installation where
  "wordpress =
     \<lparr>inst_TypeMeta = \<lparr>Kind = ''Installation'', APIVersion = ''porter.sh/v1''\<rparr>,
      inst_ObjectMeta = empty_ObjectMeta
        \<lparr>Name := ''wordpress'', Namespace := ''demo'', UID := ''uid-1'',
         ResourceVersion := ''5''\<rparr>,
      inst_Spec =
        \<lparr>Reference = ''example.com/wordpress-bundle:v1'', Action = ''install'',
         PorterVersion = [], ServiceAccount = [], CredentialSets = [], ParameterSets = [],
         Parameters = [], OutputsVolumeSize = []\<rparr>,
      inst_Status =
        \<lparr>ActiveJob = LocalObjectReference [], LastJob = LocalObjectReference []\<rparr>\<rparr>"

definition wordpress_request :: Request where
  "wordpress_request = Request (NamespacedName ''demo'' ''wordpress'')"

definition wordpress_cluster :: cluster where
  "wordpress_cluster =
     \<lparr>installations = [NamespacedName ''demo'' ''wordpress'' \<mapsto> wordpress],
      jobs = Map.empty, persistentvolumeclaims = Map.empty, configmaps = Map.empty,
      faults = (\<lambda>n. None), calls = []\<rparr>"

definition wordpress_cluster_with_job :: cluster where
  "wordpress_cluster_with_job =
     wordpress_cluster\<lparr>jobs := [NamespacedName ''demo'' ''wordpress-5'' \<mapsto> empty_Job]\<rparr>"

definition wordpress_volume :: PersistentVolumeClaim where
  "wordpress_volume = porter_pvc ''wordpress-5'' wordpress (Quantity 134217728 0 BinarySI)"

definition wordpress_job :: Job where
  "wordpress_job =
     porter_job ''wordpress-5'' wordpress wordpress_volume
       ''ghcr.io/getporter/porter:kubernetes-latest'' PullAlways [] (porter_args wordpress)"

definition wordpress_cluster_with_volume :: cluster where
  "wordpress_cluster_with_volume =
     wordpress_cluster
       \<lparr>persistentvolumeclaims := [NamespacedName ''demo'' ''wordpress-5'' \<mapsto> wordpress_volume]\<rparr>"

text \<open>
  A cluster whose job \<open>wordpress-5\<close> exists while the query for it is answered not-found,
  as a read from a stale cache is.
\<close>

definition wordpress_cluster_stale_read :: cluster where
  "wordpress_cluster_stale_read =
     wordpress_cluster
       \<lparr>jobs := [NamespacedName ''demo'' ''wordpress-5'' \<mapsto> wordpress_job],
        faults := (\<lambda>n. if n = 1 then Some (StatusError StatusReasonNotFound) else None)\<rparr>"

text \<open>The Installation with a custom action, two credential sets, a parameter set and a parameter.\<close>

definition wordpress_status_check :: Installation where
  "wordpress_status_check =
     wordpress\<lparr>inst_Spec := (inst_Spec wordpress)
       \<lparr>Action := ''status-check'', CredentialSets := [''azure'', ''kube''],
        ParameterSets := [''prod''], Parameters := [(''debug'', ''true'')]\<rparr>\<rparr>"

text \<open>The Installation with a volume size that is no quantity.\<close>

definition wordpress_notasize :: Installation where
  "wordpress_notasize =
     wordpress\<lparr>inst_Spec := (inst_Spec wordpress)\<lparr>OutputsVolumeSize := ''notasize''\<rparr>\<rparr>"

text \<open>A cluster whose namespace has defaults, and an Installation with its own volume size.\<close>

definition wordpress_cluster_with_config :: cluster where
  "wordpress_cluster_with_config =
     wordpress_cluster
       \<lparr>configmaps :=
          [NamespacedName ''demo'' ''porter'' \<mapsto>
             \<lparr>cm_ObjectMeta = empty_ObjectMeta\<lparr>Name := ''porter'', Namespace := ''demo''\<rparr>,
              Data = [''outputsVolumeSize'' \<mapsto> ''256Mi'', ''porterVersion'' \<mapsto> ''v1.2.3'']\<rparr>]\<rparr>"

definition wordpress_64Mi :: Installation where
  "wordpress_64Mi =
     wordpress\<lparr>inst_Spec := (inst_Spec wordpress)\<lparr>OutputsVolumeSize := ''64Mi''\<rparr>\<rparr>"

text \<open>A cluster whose API server cannot be reached: every request fails in transport.\<close>

definition wordpress_cluster_unreachable :: cluster where
  "wordpress_cluster_unreachable =
     wordpress_cluster\<lparr>faults := (\<lambda>n. Some (ErrorString ''connection refused''))\<rparr>"

section \<open>The requests of each function\<close>

lemma config_reads_simps [simp]:
  "config_reads []"
  "config_reads (x # gs) = (is_config_read (fst x) \<and> config_reads gs)"
  "config_reads (gs @ gs') = (config_reads gs \<and> config_reads gs')"
  by (simp_all add: config_reads_def)

lemma config_reads_member:
  "config_reads gs \<Longrightarrow> x \<in> set gs \<Longrightarrow> \<exists>key outcome. x = (GetConfigMap key, outcome)"
  by (cases x, cases "fst x") (auto simp: config_reads_def list_all_iff)

lemma record_call_fields [simp]:
  "calls (record_call c rq e) = calls c @ [(rq, e)]"
  "installations (record_call c rq e) = installations c"
  "jobs (record_call c rq e) = jobs c"
  "persistentvolumeclaims (record_call c rq e) = persistentvolumeclaims c"
  "configmaps (record_call c rq e) = configmaps c"
  "faults (record_call c rq e) = faults c"
  by (simp_all add: record_call_def)

lemma extends_refl: "extends c [] c"
  by (simp add: extends_def)

lemma extends_trans: "extends c gs c1 \<Longrightarrow> extends c1 gs' c2 \<Longrightarrow> extends c (gs @ gs') c2"
  by (simp add: extends_def)

lemma Get_ConfigMap_extends:
  "Get_ConfigMap c k = (r, c') \<Longrightarrow> extends c [(GetConfigMap k, outcome_error r)] c'"
  by (auto simp: Get_ConfigMap_def Let_def extends_def record_call_def)

lemma getOutputsVolumeSize_string_extends:
  "getOutputsVolumeSize_string c inst = (s, c') \<Longrightarrow> \<exists>gs. extends c gs c' \<and> config_reads gs"
  unfolding getOutputsVolumeSize_string_def
  by (auto split: if_splits prod.splits option.splits simp: Let_def
      dest!: Get_ConfigMap_extends intro: extends_refl exI[where x="[]"])

lemma getPorterImageVersion_extends:
  "getPorterImageVersion c inst = (vp, c') \<Longrightarrow> \<exists>gs. extends c gs c' \<and> config_reads gs"
  unfolding getPorterImageVersion_def
  by (auto split: if_splits prod.splits option.splits simp: Let_def
      dest!: Get_ConfigMap_extends intro: extends_refl exI[where x="[]"])

lemma getPorterAgentServiceAccount_extends:
  "getPorterAgentServiceAccount c inst = (sa, c') \<Longrightarrow> \<exists>gs. extends c gs c' \<and> config_reads gs"
  unfolding getPorterAgentServiceAccount_def
  by (auto split: if_splits prod.splits option.splits simp: Let_def
      dest!: Get_ConfigMap_extends intro: extends_refl exI[where x="[]"])

lemma getOutputsVolumeSize_cases:
  assumes "getOutputsVolumeSize pq c inst = (r, c')"
  obtains gs s where "extends c gs c'" "config_reads gs"
    "getOutputsVolumeSize_string c inst = (s, c')"
    "r = (case pq s of Inl err \<Rightarrow> Inl (Wrapped err (''invalid outputsVolumeSize '' @ s))
                     | Inr qty \<Rightarrow> Inr qty)"
proof -
  obtain s c1 where s: "getOutputsVolumeSize_string c inst = (s, c1)"
    by (cases "getOutputsVolumeSize_string c inst")
  from getOutputsVolumeSize_string_extends [OF s]
  obtain gs where gs: "extends c gs c1" "config_reads gs" by blast
  from assms s have "c' = c1"
    and "r = (case pq s of Inl err \<Rightarrow> Inl (Wrapped err (''invalid outputsVolumeSize '' @ s))
                     | Inr qty \<Rightarrow> Inr qty)"
    by (auto simp: getOutputsVolumeSize_def split: sum.splits)
  with gs s show thesis by (auto intro: that)
qed

lemma Create_PersistentVolumeClaim_cases:
  assumes "Create_PersistentVolumeClaim c pvc = (r, c')"
  shows "(r = None \<and>
          c' = c\<lparr>persistentvolumeclaims :=
                   (persistentvolumeclaims c)(object_key (pvc_ObjectMeta pvc) \<mapsto> pvc),
                 calls := calls c @ [(CreatePersistentVolumeClaim pvc, None)]\<rparr>)
       \<or> (r \<noteq> None \<and> extends c [(CreatePersistentVolumeClaim pvc, r)] c')"
  using assms
  by (auto simp: Create_PersistentVolumeClaim_def Let_def record_call_def extends_def
      split: if_splits)

lemma Create_Job_cases:
  assumes "Create_Job c job = (r, c')"
  shows "(r = None \<and>
          c' = c\<lparr>jobs := (jobs c)(object_key (job_ObjectMeta job) \<mapsto> job),
                 calls := calls c @ [(CreateJob job, None)]\<rparr>)
       \<or> (r \<noteq> None \<and> extends c [(CreateJob job, r)] c')"
  using assms
  by (auto simp: Create_Job_def Let_def record_call_def extends_def split: if_splits)

lemma createJobForInstallation_cases:
  assumes run: "createJobForInstallation pq c jobName inst = (r, c')"
  obtains
    (parse_failed) gs s e where
      "getOutputsVolumeSize_string c inst = (s, c')" "pq s = Inl e"
      "r = Some (Wrapped e (''invalid outputsVolumeSize '' @ s))"
      "extends c gs c'" "config_reads gs"
  | (pvc_failed) gs s q e where
      "fst (getOutputsVolumeSize_string c inst) = s" "pq s = Inr q"
      "r = Some e"
      "extends c (gs @ [(CreatePersistentVolumeClaim (porter_pvc jobName inst q), Some e)]) c'"
      "config_reads gs"
  | (job_attempted) gs gs' s q img pullPolicy sa e where
      "fst (getOutputsVolumeSize_string c inst) = s" "pq s = Inr q"
      "r = Wrapf e (''error creating job for Installation '' @
                    Namespace (inst_ObjectMeta inst) @ ''/'' @
                    Name (inst_ObjectMeta inst) @ ''@'' @
                    ResourceVersion (inst_ObjectMeta inst))"
      "calls c' = calls c @ gs @
         [(CreatePersistentVolumeClaim (porter_pvc jobName inst q), None)] @ gs' @
         [(CreateJob (porter_job jobName inst (porter_pvc jobName inst q) img pullPolicy sa
                        (porter_args inst)), e)]"
      "config_reads gs" "config_reads gs'"
      "installations c' = installations c" "configmaps c' = configmaps c"
      "faults c' = faults c"
      "persistentvolumeclaims c' =
         (persistentvolumeclaims c)
           (object_key (pvc_ObjectMeta (porter_pvc jobName inst q)) \<mapsto> porter_pvc jobName inst q)"
      "jobs c' =
         (if e = None
          then (jobs c)
            (object_key (job_ObjectMeta
               (porter_job jobName inst (porter_pvc jobName inst q) img pullPolicy sa
                  (porter_args inst))) \<mapsto>
             porter_job jobName inst (porter_pvc jobName inst q) img pullPolicy sa
               (porter_args inst))
          else jobs c)"
proof -
  obtain r1 c1 where size: "getOutputsVolumeSize pq c inst = (r1, c1)"
    by (cases "getOutputsVolumeSize pq c inst")
  from getOutputsVolumeSize_cases [OF size]
  obtain gs s where gs: "extends c gs c1" "config_reads gs"
    and str: "getOutputsVolumeSize_string c inst = (s, c1)"
    and r1: "r1 = (case pq s of Inl err \<Rightarrow> Inl (Wrapped err (''invalid outputsVolumeSize '' @ s))
                     | Inr qty \<Rightarrow> Inr qty)"
    by blast
  show thesis
  proof (cases "pq s")
    case (Inl e)
    with run size r1 have "r = Some (Wrapped e (''invalid outputsVolumeSize '' @ s))" "c' = c1"
      by (simp_all add: createJobForInstallation_def)
    with Inl gs str show thesis by (auto intro: parse_failed)
  next
    case (Inr q)
    let ?pvc = "porter_pvc jobName inst q"
    obtain r2 c2 where pvc: "Create_PersistentVolumeClaim c1 ?pvc = (r2, c2)"
      by (cases "Create_PersistentVolumeClaim c1 ?pvc")
    show thesis
    proof (cases r2)
      case (Some e)
      with run size r1 Inr pvc have "r = Some e" "c' = c2"
        by (simp_all add: createJobForInstallation_def Let_def)
      moreover from Create_PersistentVolumeClaim_cases [OF pvc] Some
      have "extends c1 [(CreatePersistentVolumeClaim ?pvc, Some e)] c2" by simp
      with gs(1) have "extends c (gs @ [(CreatePersistentVolumeClaim ?pvc, Some e)]) c2"
        by (rule extends_trans)
      ultimately show thesis using Inr gs str by (auto intro: pvc_failed)
    next
      case None
      with Create_PersistentVolumeClaim_cases [OF pvc]
      have c2: "c2 = c1\<lparr>persistentvolumeclaims :=
                   (persistentvolumeclaims c1)(object_key (pvc_ObjectMeta ?pvc) \<mapsto> ?pvc),
                 calls := calls c1 @ [(CreatePersistentVolumeClaim ?pvc, None)]\<rparr>"
        by simp
      obtain v pp c3 where ver: "getPorterImageVersion c2 inst = ((v, pp), c3)"
        by (cases "getPorterImageVersion c2 inst") auto
      obtain sa c4 where acct: "getPorterAgentServiceAccount c3 inst = (sa, c4)"
        by (cases "getPorterAgentServiceAccount c3 inst")
      let ?job = "porter_job jobName inst ?pvc (''ghcr.io/getporter/porter:kubernetes-'' @ v)
                    pp sa (porter_args inst)"
      obtain e c5 where job: "Create_Job c4 ?job = (e, c5)"
        by (cases "Create_Job c4 ?job")
      from getPorterImageVersion_extends [OF ver]
      obtain g3 where g3: "extends c2 g3 c3" "config_reads g3" by blast
      from getPorterAgentServiceAccount_extends [OF acct]
      obtain g4 where g4: "extends c3 g4 c4" "config_reads g4" by blast
      from run size r1 Inr pvc None ver acct job
      have res: "r = Wrapf e (''error creating job for Installation '' @
                    Namespace (inst_ObjectMeta inst) @ ''/'' @
                    Name (inst_ObjectMeta inst) @ ''@'' @
                    ResourceVersion (inst_ObjectMeta inst))" "c' = c5"
        by (simp_all add: createJobForInstallation_def Let_def)
      from gs c2 g3 g4 have c4: "c4 = c\<lparr>persistentvolumeclaims :=
                   (persistentvolumeclaims c)(object_key (pvc_ObjectMeta ?pvc) \<mapsto> ?pvc),
                 calls := calls c @ gs @ [(CreatePersistentVolumeClaim ?pvc, None)] @ g3 @ g4\<rparr>"
        by (simp add: extends_def)
      from Create_Job_cases [OF job]
      have c5: "c5 = c4\<lparr>jobs := (if e = None then (jobs c4)(object_key (job_ObjectMeta ?job) \<mapsto> ?job)
                                   else jobs c4),
                        calls := calls c4 @ [(CreateJob ?job, e)]\<rparr>"
        by (auto simp: extends_def)
      show thesis
      proof (rule job_attempted [of s q e gs "g3 @ g4" "''ghcr.io/getporter/porter:kubernetes-'' @ v" pp sa])
        show "fst (getOutputsVolumeSize_string c inst) = s" using str by simp
        show "pq s = Inr q" by (fact Inr)
        show "r = Wrapf e (''error creating job for Installation '' @
                    Namespace (inst_ObjectMeta inst) @ ''/'' @
                    Name (inst_ObjectMeta inst) @ ''@'' @
                    ResourceVersion (inst_ObjectMeta inst))" by (fact res(1))
        show "config_reads gs" by (fact gs(2))
        show "config_reads (g3 @ g4)" using g3 g4 by simp
      qed (simp_all add: res(2) c5 c4)
    qed
  qed
qed

lemma get_outcome_Inr:
  "get_outcome fault stored = Inr obj \<longleftrightarrow> fault = None \<and> stored = Some obj"
  by (simp add: get_outcome_def split: option.splits)

lemma Get_Installation_extends:
  "Get_Installation c k = (r, c') \<Longrightarrow> extends c [(GetInstallation k, outcome_error r)] c'"
  by (auto simp: Get_Installation_def Let_def extends_def record_call_def)

lemma Get_Job_extends:
  "Get_Job c k = (r, c') \<Longrightarrow> extends c [(GetJob k, outcome_error r)] c'"
  by (auto simp: Get_Job_def Let_def extends_def record_call_def)

lemma Get_Installation_Inr:
  "fst (Get_Installation c k) = Inr inst \<longleftrightarrow>
     faults c (length (calls c)) = None \<and> installations c k = Some inst"
  by (simp add: Get_Installation_def Let_def get_outcome_Inr next_fault_def)

lemma Get_Job_Inr:
  "fst (Get_Job c k) = Inr job \<longleftrightarrow> faults c (length (calls c)) = None \<and> jobs c k = Some job"
  by (simp add: Get_Job_def Let_def get_outcome_Inr next_fault_def)

lemma extends_fields:
  assumes "extends c gs c'"
  shows "calls c' = calls c @ gs" "installations c' = installations c" "jobs c' = jobs c"
    "persistentvolumeclaims c' = persistentvolumeclaims c" "configmaps c' = configmaps c"
    "faults c' = faults c"
  using assms by (simp_all add: extends_def)

lemma Reconcile_cases:
  assumes run: "Reconcile pq c req = (out, c')"
  obtains
    (load_failed) e where
      "fst (Get_Installation c (req_NamespacedName req)) = Inl e"
      "out = (\<lparr>Requeue = False, RequeueAfter = 0\<rparr>, None)"
      "extends c [(GetInstallation (req_NamespacedName req), Some e)] c'"
  | (job_found) inst job where
      "fst (Get_Installation c (req_NamespacedName req)) = Inr inst"
      "out = (\<lparr>Requeue = False, RequeueAfter = 0\<rparr>, None)"
      "extends c
         [(GetInstallation (req_NamespacedName req), None),
          (GetJob (NamespacedName (req_Namespace req)
                    (req_Name req @ ''-'' @ ResourceVersion (inst_ObjectMeta inst))), None)] c'"
      "jobs c (NamespacedName (req_Namespace req)
                (req_Name req @ ''-'' @ ResourceVersion (inst_ObjectMeta inst))) = Some job"
      "faults c (Suc (length (calls c))) = None"
  | (query_failed) inst e where
      "fst (Get_Installation c (req_NamespacedName req)) = Inr inst"
      "\<not> IsNotFound e"
      "out = (\<lparr>Requeue = False, RequeueAfter = 0\<rparr>,
              Some (Wrapped e (''could not query for the bundle installation job '' @
                               req_Namespace req @ ''/'')))"
      "extends c
         [(GetInstallation (req_NamespacedName req), None),
          (GetJob (NamespacedName (req_Namespace req)
                    (req_Name req @ ''-'' @ ResourceVersion (inst_ObjectMeta inst))), Some e)] c'"
      "get_outcome (faults c (Suc (length (calls c))))
         (jobs c (NamespacedName (req_Namespace req)
                   (req_Name req @ ''-'' @ ResourceVersion (inst_ObjectMeta inst)))) = Inl e"
  | (creation) inst e c2 r where
      "fst (Get_Installation c (req_NamespacedName req)) = Inr inst"
      "IsNotFound e"
      "extends c
         [(GetInstallation (req_NamespacedName req), None),
          (GetJob (NamespacedName (req_Namespace req)
                    (req_Name req @ ''-'' @ ResourceVersion (inst_ObjectMeta inst))), Some e)] c2"
      "createJobForInstallation pq c2
         (req_Name req @ ''-'' @ ResourceVersion (inst_ObjectMeta inst)) inst = (r, c')"
      "out = (\<lparr>Requeue = False, RequeueAfter = 0\<rparr>, r)"
      "get_outcome (faults c (Suc (length (calls c))))
         (jobs c (NamespacedName (req_Namespace req)
                   (req_Name req @ ''-'' @ ResourceVersion (inst_ObjectMeta inst)))) = Inl e"
proof -
  obtain r1 c1 where load: "Get_Installation c (req_NamespacedName req) = (r1, c1)"
    by (cases "Get_Installation c (req_NamespacedName req)")
  note x1 = Get_Installation_extends [OF load]
  show thesis
  proof (cases r1)
    case (Inl e)
    with run load have "out = (\<lparr>Requeue = False, RequeueAfter = 0\<rparr>, None)" "c' = c1"
      by (simp_all add: Reconcile_def)
    with Inl load x1 show thesis by (auto intro: load_failed simp: outcome_error_def)
  next
    case (Inr inst)
    let ?jobName = "req_Name req @ ''-'' @ ResourceVersion (inst_ObjectMeta inst)"
    let ?key = "NamespacedName (req_Namespace req) ?jobName"
    obtain r2 c2 where query: "Get_Job c1 ?key = (r2, c2)"
      by (cases "Get_Job c1 ?key")
    from x1 Inr have x1': "extends c [(GetInstallation (req_NamespacedName req), None)] c1"
      by (simp add: outcome_error_def)
    note x2 = extends_trans [OF x1' Get_Job_extends [OF query]]
    have inst: "fst (Get_Installation c (req_NamespacedName req)) = Inr inst"
      using load Inr by simp
    show thesis
    proof (cases r2)
      case (Inr job)
      with run load \<open>r1 = Inr inst\<close> query
      have "out = (\<lparr>Requeue = False, RequeueAfter = 0\<rparr>, None)" "c' = c2"
        by (simp_all add: Reconcile_def Let_def)
      moreover from query Inr have "fst (Get_Job c1 ?key) = Inr job" by simp
      then have "jobs c ?key = Some job" "faults c (Suc (length (calls c))) = None"
        using extends_fields [OF x1'] by (simp_all add: Get_Job_Inr)
      ultimately show thesis using inst x2 Inr
        by (auto intro: job_found simp: outcome_error_def)
    next
      case (Inl e)
      with query have "fst (Get_Job c1 ?key) = Inl e" by simp
      then have answered: "get_outcome (faults c (Suc (length (calls c)))) (jobs c ?key) = Inl e"
        using extends_fields [OF x1'] by (simp add: Get_Job_def Let_def next_fault_def)
      show thesis
      proof (cases "IsNotFound e")
        case False
        with run load \<open>r1 = Inr inst\<close> query Inl
        have "out = (\<lparr>Requeue = False, RequeueAfter = 0\<rparr>,
              Some (Wrapped e (''could not query for the bundle installation job '' @
                               req_Namespace req @ ''/'')))" "c' = c2"
          by (simp_all add: Reconcile_def Let_def Wrapf_def empty_Job_def empty_ObjectMeta_def)
        with False inst x2 Inl answered show thesis
          by (auto intro: query_failed simp: outcome_error_def)
      next
        case True
        obtain r c3 where create: "createJobForInstallation pq c2 ?jobName inst = (r, c3)"
          by (cases "createJobForInstallation pq c2 ?jobName inst")
        with run load \<open>r1 = Inr inst\<close> query Inl True
        have "out = (\<lparr>Requeue = False, RequeueAfter = 0\<rparr>, r)" "c' = c3"
          by (simp_all add: Reconcile_def Let_def split: option.splits)
        with True inst x2 Inl create answered show thesis
          by (auto intro: creation simp: outcome_error_def)
      qed
    qed
  qed
qed

lemmas client_defs =
  Get_Installation_def Get_Job_def Get_ConfigMap_def Create_PersistentVolumeClaim_def
  Create_Job_def get_outcome_def create_outcome_def outcome_error_def next_fault_def
  record_call_def object_key_def

lemmas reconciler_defs =
  Reconcile_def createJobForInstallation_def getOutputsVolumeSize_def
  getOutputsVolumeSize_string_def getPorterImageVersion_def getPorterAgentServiceAccount_def
  req_Name_def req_Namespace_def IsNotFound_def Wrapf_def empty_ConfigMap_def

lemmas wordpress_defs =
  wordpress_def wordpress_request_def wordpress_cluster_def wordpress_cluster_with_job_def
  sample_ParseQuantity_def empty_ObjectMeta_def

lemma Reconcile_job_found:
  assumes "installations c (req_NamespacedName req) = Some inst"
    and "jobs c (NamespacedName (req_Namespace req)
                  (req_Name req @ ''-'' @ ResourceVersion (inst_ObjectMeta inst))) = Some job"
    and "faults c (length (calls c)) = None"
    and "faults c (Suc (length (calls c))) = None"
  shows "Reconcile pq c req =
           ((\<lparr>Requeue = False, RequeueAfter = 0\<rparr>, None),
            c\<lparr>calls := calls c @
                 [(GetInstallation (req_NamespacedName req), None),
                  (GetJob (NamespacedName (req_Namespace req)
                     (req_Name req @ ''-'' @ ResourceVersion (inst_ObjectMeta inst))), None)]\<rparr>)"
  using assms
  by (simp add: Reconcile_def Get_Installation_def Get_Job_def get_outcome_def next_fault_def
      outcome_error_def record_call_def Let_def)

lemma porter_job_key:
  "object_key (job_ObjectMeta (porter_job jobName inst pvc img pullPolicy sa args)) =
     NamespacedName (Namespace (inst_ObjectMeta inst)) jobName"
  by (simp add: porter_job_def object_key_def empty_ObjectMeta_def)

lemma porter_pvc_key:
  "object_key (pvc_ObjectMeta (porter_pvc jobName inst q)) =
     NamespacedName (Namespace (inst_ObjectMeta inst)) jobName"
  by (simp add: porter_pvc_def object_key_def empty_ObjectMeta_def)

lemma request_of_object_key:
  assumes "object_key (inst_ObjectMeta inst) = req_NamespacedName req"
  shows "req_Namespace req = Namespace (inst_ObjectMeta inst)"
    and "req_Name req = Name (inst_ObjectMeta inst)"
proof -
  from assms have "req_NamespacedName req =
      NamespacedName (Namespace (inst_ObjectMeta inst)) (Name (inst_ObjectMeta inst))"
    by (simp add: object_key_def)
  then show "req_Namespace req = Namespace (inst_ObjectMeta inst)"
    and "req_Name req = Name (inst_ObjectMeta inst)"
    by (simp_all add: req_Namespace_def req_Name_def)
qed

lemma Reconcile_success_leaves_job:
  assumes run: "Reconcile pq c req = ((res, None), c')"
    and stored: "installations c (req_NamespacedName req) = Some inst"
    and named: "object_key (inst_ObjectMeta inst) = req_NamespacedName req"
    and reached: "faults c (length (calls c)) = None"
  shows "jobs c' (derived_job_identity inst) \<noteq> None \<and> installations c' = installations c
         \<and> faults c' = faults c"
proof -
  note rq = request_of_object_key [OF named]
  have loaded: "fst (Get_Installation c (req_NamespacedName req)) = Inr inst"
    using stored reached by (simp add: Get_Installation_Inr)
  from run show ?thesis
  proof (cases rule: Reconcile_cases)
    case (load_failed e)
    with loaded show ?thesis by simp
  next
    case (job_found inst' job)
    with loaded have "inst' = inst" by simp
    with job_found extends_fields [OF job_found(3)] rq show ?thesis
      by (simp add: derived_job_identity_def)
  next
    case (query_failed inst' e)
    then show ?thesis by simp
  next
    case (creation inst' e c2 r)
    with loaded have [simp]: "inst' = inst" "r = None" by simp_all
    note c2 = extends_fields [OF creation(3)]
    from creation(4) show ?thesis
    proof (cases rule: createJobForInstallation_cases)
      case (parse_failed gs s e)
      then show ?thesis by simp
    next
      case (pvc_failed gs s q e)
      then show ?thesis by simp
    next
      case (job_attempted gs gs' s q img pullPolicy sa e')
      from job_attempted(3) have "e' = None" by (simp add: Wrapf_def split: option.splits)
      with job_attempted c2 rq show ?thesis
        by (simp add: derived_job_identity_def porter_job_key)
    qed
  qed
qed

section \<open>Idempotency at a fixed revision\<close>

text \<open>
  C1. Let the Installation of the request be stored under its own namespace and name. If a
  job with the derived identity (name, dash, revision token) exists in that namespace and
  the two requests of the pass are answered, \<open>Reconcile\<close> returns success and the cluster
  changes only by the record of the two reads: no volume claim and no job is created.
  Moreover, after any pass that loaded the Installation and returned no error, a second pass
  for the same Installation at the same revision is such a no-op.
\<close>

theorem Reconcile_idempotent:
  assumes stored: "installations c (req_NamespacedName req) = Some inst"
    and named: "object_key (inst_ObjectMeta inst) = req_NamespacedName req"
  shows "(jobs c (derived_job_identity inst) \<noteq> None \<and>
          faults c (length (calls c)) = None \<and> faults c (Suc (length (calls c))) = None \<longrightarrow>
            Reconcile pq c req =
              ((\<lparr>Requeue = False, RequeueAfter = 0\<rparr>, None),
               c\<lparr>calls := calls c @
                    [(GetInstallation (req_NamespacedName req), None),
                     (GetJob (derived_job_identity inst), None)]\<rparr>))
       \<and> (\<forall>res c'. Reconcile pq c req = ((res, None), c') \<and>
            faults c (length (calls c)) = None \<and>
            faults c (length (calls c')) = None \<and> faults c (Suc (length (calls c'))) = None \<longrightarrow>
            Reconcile pq c' req =
              ((\<lparr>Requeue = False, RequeueAfter = 0\<rparr>, None),
               c'\<lparr>calls := calls c' @
                    [(GetInstallation (req_NamespacedName req), None),
                     (GetJob (derived_job_identity inst), None)]\<rparr>))"
proof -
  note rq = request_of_object_key [OF named]
  have key: "NamespacedName (req_Namespace req)
               (req_Name req @ ''-'' @ ResourceVersion (inst_ObjectMeta inst)) =
             derived_job_identity inst"
    by (simp add: rq derived_job_identity_def)
  have found: "Reconcile pq d req =
              ((\<lparr>Requeue = False, RequeueAfter = 0\<rparr>, None),
               d\<lparr>calls := calls d @
                    [(GetInstallation (req_NamespacedName req), None),
                     (GetJob (derived_job_identity inst), None)]\<rparr>)"
    if "installations d (req_NamespacedName req) = Some inst"
      and "jobs d (derived_job_identity inst) \<noteq> None"
      and "faults d (length (calls d)) = None" and "faults d (Suc (length (calls d))) = None"
    for d
  proof -
    from that(2) obtain job where "jobs d (derived_job_identity inst) = Some job" by auto
    with that Reconcile_job_found [of d req inst job pq, unfolded key] show ?thesis
      by simp
  qed
  show ?thesis
  proof (intro conjI allI impI)
    assume "jobs c (derived_job_identity inst) \<noteq> None \<and>
          faults c (length (calls c)) = None \<and> faults c (Suc (length (calls c))) = None"
    with stored show "Reconcile pq c req =
              ((\<lparr>Requeue = False, RequeueAfter = 0\<rparr>, None),
               c\<lparr>calls := calls c @
                    [(GetInstallation (req_NamespacedName req), None),
                     (GetJob (derived_job_identity inst), None)]\<rparr>)"
      by (intro found) simp_all
  next
    fix res c'
    assume a: "Reconcile pq c req = ((res, None), c') \<and>
            faults c (length (calls c)) = None \<and>
            faults c (length (calls c')) = None \<and> faults c (Suc (length (calls c'))) = None"
    then have "jobs c' (derived_job_identity inst) \<noteq> None \<and> installations c' = installations c
         \<and> faults c' = faults c"
      using Reconcile_success_leaves_job [OF _ stored named] by blast
    with a stored show "Reconcile pq c' req =
              ((\<lparr>Requeue = False, RequeueAfter = 0\<rparr>, None),
               c'\<lparr>calls := calls c' @
                    [(GetInstallation (req_NamespacedName req), None),
                     (GetJob (derived_job_identity inst), None)]\<rparr>)"
      by (intro found) simp_all
  qed
qed

lemma wordpress_first_pass:
  "fst (Reconcile sample_ParseQuantity wordpress_cluster wordpress_request) =
     (\<lparr>Requeue = False, RequeueAfter = 0\<rparr>, None)"
  by (simp add: reconciler_defs client_defs wordpress_defs porter_pvc_def porter_job_def Let_def)

theorem Reconcile_idempotent_witness:
  "Reconcile sample_ParseQuantity wordpress_cluster_with_job wordpress_request =
     ((\<lparr>Requeue = False, RequeueAfter = 0\<rparr>, None),
      wordpress_cluster_with_job
        \<lparr>calls := [(GetInstallation (NamespacedName ''demo'' ''wordpress''), None),
                   (GetJob (NamespacedName ''demo'' ''wordpress-5''), None)]\<rparr>)
   \<and> Reconcile sample_ParseQuantity
       (snd (Reconcile sample_ParseQuantity wordpress_cluster wordpress_request))
       wordpress_request =
     ((\<lparr>Requeue = False, RequeueAfter = 0\<rparr>, None),
      (snd (Reconcile sample_ParseQuantity wordpress_cluster wordpress_request))
        \<lparr>calls := calls (snd (Reconcile sample_ParseQuantity wordpress_cluster wordpress_request)) @
                  [(GetInstallation (NamespacedName ''demo'' ''wordpress''), None),
                   (GetJob (NamespacedName ''demo'' ''wordpress-5''), None)]\<rparr>)"
proof -
  have 1: "installations wordpress_cluster_with_job (req_NamespacedName wordpress_request) = Some wordpress"
    and 2: "installations wordpress_cluster (req_NamespacedName wordpress_request) = Some wordpress"
    and 3: "object_key (inst_ObjectMeta wordpress) = req_NamespacedName wordpress_request"
    and 4: "derived_job_identity wordpress = NamespacedName ''demo'' ''wordpress-5''"
    by (simp_all add: wordpress_defs object_key_def derived_job_identity_def)
  have 5: "faults wordpress_cluster n = None" "calls wordpress_cluster_with_job = []"
    "jobs wordpress_cluster_with_job (NamespacedName ''demo'' ''wordpress-5'') \<noteq> None"
    "faults wordpress_cluster_with_job n = None" for n
    by (simp_all add: wordpress_defs)
  obtain c' where run: "Reconcile sample_ParseQuantity wordpress_cluster wordpress_request =
      ((\<lparr>Requeue = False, RequeueAfter = 0\<rparr>, None), c')"
    using wordpress_first_pass
    by (cases "Reconcile sample_ParseQuantity wordpress_cluster wordpress_request") auto
  from Reconcile_idempotent [OF 1 3, of sample_ParseQuantity]
    Reconcile_idempotent [OF 2 3, of sample_ParseQuantity] run
  show ?thesis
    by (simp add: 4 5 wordpress_request_def)
qed

lemma new_calls_eq: "calls c' = calls c @ gs \<Longrightarrow> new_calls c c' = gs"
  by (simp add: new_calls_def)

lemma Reconcile_trace:
  assumes run: "Reconcile pq c req = (out, c')"
  obtains
    (load_failed) e where
      "fst (Get_Installation c (req_NamespacedName req)) = Inl e"
      "out = (\<lparr>Requeue = False, RequeueAfter = 0\<rparr>, None)"
      "new_calls c c' = [(GetInstallation (req_NamespacedName req), Some e)]"
  | (job_found) inst where
      "installations c (req_NamespacedName req) = Some inst"
      "out = (\<lparr>Requeue = False, RequeueAfter = 0\<rparr>, None)"
      "new_calls c c' =
         [(GetInstallation (req_NamespacedName req), None),
          (GetJob (NamespacedName (req_Namespace req)
                    (req_Name req @ ''-'' @ ResourceVersion (inst_ObjectMeta inst))), None)]"
  | (query_failed) inst e where
      "installations c (req_NamespacedName req) = Some inst"
      "\<not> IsNotFound e"
      "out = (\<lparr>Requeue = False, RequeueAfter = 0\<rparr>,
              Some (Wrapped e (''could not query for the bundle installation job '' @
                               req_Namespace req @ ''/'')))"
      "new_calls c c' =
         [(GetInstallation (req_NamespacedName req), None),
          (GetJob (NamespacedName (req_Namespace req)
                    (req_Name req @ ''-'' @ ResourceVersion (inst_ObjectMeta inst))), Some e)]"
  | (parse_failed) inst e gs s pe where
      "installations c (req_NamespacedName req) = Some inst"
      "IsNotFound e" "config_reads gs" "pq s = Inl pe"
      "out = (\<lparr>Requeue = False, RequeueAfter = 0\<rparr>,
              Some (Wrapped pe (''invalid outputsVolumeSize '' @ s)))"
      "new_calls c c' =
         [(GetInstallation (req_NamespacedName req), None),
          (GetJob (NamespacedName (req_Namespace req)
                    (req_Name req @ ''-'' @ ResourceVersion (inst_ObjectMeta inst))), Some e)] @ gs"
  | (pvc_failed) inst e gs q ce where
      "installations c (req_NamespacedName req) = Some inst"
      "IsNotFound e" "config_reads gs"
      "out = (\<lparr>Requeue = False, RequeueAfter = 0\<rparr>, Some ce)"
      "new_calls c c' =
         [(GetInstallation (req_NamespacedName req), None),
          (GetJob (NamespacedName (req_Namespace req)
                    (req_Name req @ ''-'' @ ResourceVersion (inst_ObjectMeta inst))), Some e)] @ gs @
         [(CreatePersistentVolumeClaim
             (porter_pvc (req_Name req @ ''-'' @ ResourceVersion (inst_ObjectMeta inst)) inst q),
           Some ce)]"
  | (job_attempted) inst e gs gs' q img pullPolicy sa je where
      "installations c (req_NamespacedName req) = Some inst"
      "IsNotFound e" "config_reads gs" "config_reads gs'"
      "out = (\<lparr>Requeue = False, RequeueAfter = 0\<rparr>,
              Wrapf je (''error creating job for Installation '' @
                    Namespace (inst_ObjectMeta inst) @ ''/'' @
                    Name (inst_ObjectMeta inst) @ ''@'' @
                    ResourceVersion (inst_ObjectMeta inst)))"
      "new_calls c c' =
         [(GetInstallation (req_NamespacedName req), None),
          (GetJob (NamespacedName (req_Namespace req)
                    (req_Name req @ ''-'' @ ResourceVersion (inst_ObjectMeta inst))), Some e)] @ gs @
         [(CreatePersistentVolumeClaim
             (porter_pvc (req_Name req @ ''-'' @ ResourceVersion (inst_ObjectMeta inst)) inst q),
           None)] @ gs' @
         [(CreateJob
             (porter_job (req_Name req @ ''-'' @ ResourceVersion (inst_ObjectMeta inst)) inst
                (porter_pvc (req_Name req @ ''-'' @ ResourceVersion (inst_ObjectMeta inst)) inst q)
                img pullPolicy sa (porter_args inst)), je)]"
  using run
proof (cases rule: Reconcile_cases)
  case (load_failed e)
  then show ?thesis
    by (intro that(1) [where e=e]) (simp_all add: new_calls_eq extends_fields)
next
  case (job_found inst job)
  then show ?thesis
    by (intro that(2) [where inst=inst]) (simp_all add: new_calls_eq extends_fields Get_Installation_Inr)
next
  case (query_failed inst e)
  then show ?thesis
    by (intro that(3) [where inst=inst and e=e]) (simp_all add: new_calls_eq extends_fields Get_Installation_Inr)
next
  case (creation inst e c2 r)
  note c2 = extends_fields [OF creation(3)]
  have inst: "installations c (req_NamespacedName req) = Some inst"
    using creation(1) by (simp add: Get_Installation_Inr)
  from creation(4) show ?thesis
  proof (cases rule: createJobForInstallation_cases)
    case (parse_failed gs s pe)
    with creation inst c2 show ?thesis
      by (intro that(4) [where inst=inst and e=e and gs=gs and s=s and pe=pe]) (simp_all add: new_calls_eq extends_fields)
  next
    case (pvc_failed gs s q ce)
    with creation inst c2 show ?thesis
      by (intro that(5) [where inst=inst and e=e and gs=gs and q=q and ce=ce]) (simp_all add: new_calls_eq extends_fields)
  next
    case (job_attempted gs gs' s q img pullPolicy sa je)
    with creation inst c2 show ?thesis
      by (intro that(6) [where inst=inst and e=e and gs=gs and gs'=gs' and q=q and img=img and pullPolicy=pullPolicy and sa=sa and je=je]) (simp_all add: new_calls_eq)
  qed
qed

lemma wordpress_fields:
  "Name (inst_ObjectMeta wordpress) = ''wordpress''"
  "Namespace (inst_ObjectMeta wordpress) = ''demo''"
  "ResourceVersion (inst_ObjectMeta wordpress) = ''5''"
  "OutputsVolumeSize (inst_Spec wordpress) = []"
  "PorterVersion (inst_Spec wordpress) = []"
  "ServiceAccount (inst_Spec wordpress) = []"
  by (simp_all add: wordpress_def empty_ObjectMeta_def)

lemmas run_defs =
  Reconcile_def createJobForInstallation_def getOutputsVolumeSize_def
  getOutputsVolumeSize_string_def getPorterImageVersion_def getPorterAgentServiceAccount_def
  req_Name_def req_Namespace_def IsNotFound_def Wrapf_def empty_ConfigMap_def
  Get_Installation_def Get_Job_def Get_ConfigMap_def Create_PersistentVolumeClaim_def
  Create_Job_def get_outcome_def create_outcome_def outcome_error_def next_fault_def
  record_call_def porter_pvc_key porter_job_key wordpress_fields Let_def

lemma wordpress_pass:
  "Reconcile sample_ParseQuantity wordpress_cluster wordpress_request =
     ((\<lparr>Requeue = False, RequeueAfter = 0\<rparr>, None),
      wordpress_cluster
        \<lparr>jobs := [NamespacedName ''demo'' ''wordpress-5'' \<mapsto> wordpress_job],
         persistentvolumeclaims := [NamespacedName ''demo'' ''wordpress-5'' \<mapsto> wordpress_volume],
         calls :=
           [(GetInstallation (NamespacedName ''demo'' ''wordpress''), None),
            (GetJob (NamespacedName ''demo'' ''wordpress-5''), Some (StatusError StatusReasonNotFound)),
            (GetConfigMap (NamespacedName ''demo'' ''porter''), Some (StatusError StatusReasonNotFound)),
            (CreatePersistentVolumeClaim wordpress_volume, None),
            (GetConfigMap (NamespacedName ''demo'' ''porter''), Some (StatusError StatusReasonNotFound)),
            (GetConfigMap (NamespacedName ''demo'' ''porter''), Some (StatusError StatusReasonNotFound)),
            (CreateJob wordpress_job, None)]\<rparr>)"
  by (simp add: run_defs wordpress_request_def wordpress_cluster_def sample_ParseQuantity_def
      wordpress_volume_def wordpress_job_def)

lemma wordpress_pass_with_volume:
  "Reconcile sample_ParseQuantity wordpress_cluster_with_volume wordpress_request =
     ((\<lparr>Requeue = False, RequeueAfter = 0\<rparr>, Some (StatusError StatusReasonAlreadyExists)),
      wordpress_cluster_with_volume
        \<lparr>calls :=
           [(GetInstallation (NamespacedName ''demo'' ''wordpress''), None),
            (GetJob (NamespacedName ''demo'' ''wordpress-5''), Some (StatusError StatusReasonNotFound)),
            (GetConfigMap (NamespacedName ''demo'' ''porter''), Some (StatusError StatusReasonNotFound)),
            (CreatePersistentVolumeClaim wordpress_volume,
               Some (StatusError StatusReasonAlreadyExists))]\<rparr>)"
  by (simp add: run_defs wordpress_request_def wordpress_cluster_def sample_ParseQuantity_def
      wordpress_volume_def wordpress_cluster_with_volume_def)

lemma wordpress_stored:
  "installations wordpress_cluster (req_NamespacedName wordpress_request) = Some wordpress"
  "installations wordpress_cluster_with_volume (req_NamespacedName wordpress_request) = Some wordpress"
  "object_key (inst_ObjectMeta wordpress) = req_NamespacedName wordpress_request"
  "derived_job_identity wordpress = NamespacedName ''demo'' ''wordpress-5''"
  "calls wordpress_cluster = []" "calls wordpress_cluster_with_volume = []"
  by (simp_all add: wordpress_cluster_def wordpress_cluster_with_volume_def wordpress_request_def
      object_key_def derived_job_identity_def wordpress_fields)

lemma is_config_read_not_create:
  "is_config_read rq \<Longrightarrow> \<not> is_create rq \<and> \<not> is_create_job rq \<and> \<not> is_create_pvc rq"
  by (cases rq) simp_all

lemma config_reads_no_create:
  "config_reads gs \<Longrightarrow> x \<in> set gs \<Longrightarrow>
     \<not> is_create (fst x) \<and> \<not> is_create_job (fst x) \<and> \<not> is_create_pvc (fst x)"
  by (auto simp: config_reads_def list_all_iff dest: is_config_read_not_create)

section \<open>Deterministic resource identity\<close>

lemma porter_object_names:
  "Name (pvc_ObjectMeta (porter_pvc n inst q)) = n"
  "Namespace (pvc_ObjectMeta (porter_pvc n inst q)) = Namespace (inst_ObjectMeta inst)"
  "Name (job_ObjectMeta (porter_job n inst p i pp sa as)) = n"
  "Namespace (job_ObjectMeta (porter_job n inst p i pp sa as)) = Namespace (inst_ObjectMeta inst)"
  by (simp_all add: porter_pvc_def porter_job_def empty_ObjectMeta_def)

text \<open>
  C2. Let the Installation of the request be stored under its own namespace and name, and
  let the load be answered. Then the second request of the pass is the query for the job
  named by the name of the Installation, a dash and its revision token, in the namespace of
  the Installation. When that query is answered not-found and the resolved volume size
  parses, the pass submits a volume claim of exactly that name and namespace; when the
  submission of the volume claim succeeds, the pass submits a job of exactly that name and
  namespace. No pass queries for a job, or submits a volume claim or a job, under another
  name or namespace.
\<close>

theorem Reconcile_derives_identity:
  assumes stored: "installations c (req_NamespacedName req) = Some inst"
    and named: "object_key (inst_ObjectMeta inst) = req_NamespacedName req"
    and loaded: "faults c (length (calls c)) = None"
  shows "(\<exists>outcome rest. new_calls c (snd (Reconcile pq c req)) =
            (GetInstallation (req_NamespacedName req), None) #
            (GetJob (derived_job_identity inst), outcome) # rest)
       \<and> (\<forall>e q. get_outcome (faults c (Suc (length (calls c))))
                   (jobs c (derived_job_identity inst)) = Inl e \<and> IsNotFound e \<and>
                 pq (fst (getOutputsVolumeSize_string
                       (c\<lparr>calls := calls c @
                            [(GetInstallation (req_NamespacedName req), None),
                             (GetJob (derived_job_identity inst), Some e)]\<rparr>) inst)) = Inr q \<longrightarrow>
             (\<exists>pvc outcome.
                (CreatePersistentVolumeClaim pvc, outcome)
                  \<in> set (new_calls c (snd (Reconcile pq c req))) \<and>
                Name (pvc_ObjectMeta pvc) =
                  Name (inst_ObjectMeta inst) @ ''-'' @ ResourceVersion (inst_ObjectMeta inst) \<and>
                Namespace (pvc_ObjectMeta pvc) = Namespace (inst_ObjectMeta inst)))
       \<and> (\<forall>pvc. (CreatePersistentVolumeClaim pvc, None)
                  \<in> set (new_calls c (snd (Reconcile pq c req))) \<longrightarrow>
             (\<exists>job outcome.
                (CreateJob job, outcome) \<in> set (new_calls c (snd (Reconcile pq c req))) \<and>
                Name (job_ObjectMeta job) =
                  Name (inst_ObjectMeta inst) @ ''-'' @ ResourceVersion (inst_ObjectMeta inst) \<and>
                Namespace (job_ObjectMeta job) = Namespace (inst_ObjectMeta inst)))
       \<and> (\<forall>x \<in> set (new_calls c (snd (Reconcile pq c req))).
             (\<forall>key. fst x = GetJob key \<longrightarrow> key = derived_job_identity inst) \<and>
             (\<forall>pvc. fst x = CreatePersistentVolumeClaim pvc \<longrightarrow>
                Name (pvc_ObjectMeta pvc) =
                  Name (inst_ObjectMeta inst) @ ''-'' @ ResourceVersion (inst_ObjectMeta inst) \<and>
                Namespace (pvc_ObjectMeta pvc) = Namespace (inst_ObjectMeta inst)) \<and>
             (\<forall>job. fst x = CreateJob job \<longrightarrow>
                Name (job_ObjectMeta job) =
                  Name (inst_ObjectMeta inst) @ ''-'' @ ResourceVersion (inst_ObjectMeta inst) \<and>
                Namespace (job_ObjectMeta job) = Namespace (inst_ObjectMeta inst)))"
    (is "?query \<and> ?claim \<and> ?job \<and> ?bound")
proof -
  note rq = request_of_object_key [OF named]
  let ?name = "Name (inst_ObjectMeta inst) @ ''-'' @ ResourceVersion (inst_ObjectMeta inst)"
  have key: "NamespacedName (req_Namespace req)
               (req_Name req @ ''-'' @ ResourceVersion (inst_ObjectMeta inst)) =
             derived_job_identity inst"
    and name: "req_Name req @ ''-'' @ ResourceVersion (inst_ObjectMeta inst) = ?name"
    by (simp_all add: rq derived_job_identity_def)
  have got: "fst (Get_Installation c (req_NamespacedName req)) = Inr inst"
    using stored loaded by (simp add: Get_Installation_Inr)
  obtain out c' where run: "Reconcile pq c req = (out, c')"
    by (cases "Reconcile pq c req")
  let ?new = "new_calls c c'"
  let ?query' = "\<exists>outcome rest. ?new =
            (GetInstallation (req_NamespacedName req), None) #
            (GetJob (derived_job_identity inst), outcome) # rest"
  let ?claim' = "\<forall>e q. get_outcome (faults c (Suc (length (calls c))))
                   (jobs c (derived_job_identity inst)) = Inl e \<and> IsNotFound e \<and>
                 pq (fst (getOutputsVolumeSize_string
                       (c\<lparr>calls := calls c @
                            [(GetInstallation (req_NamespacedName req), None),
                             (GetJob (derived_job_identity inst), Some e)]\<rparr>) inst)) = Inr q \<longrightarrow>
             (\<exists>pvc outcome. (CreatePersistentVolumeClaim pvc, outcome) \<in> set ?new \<and>
                Name (pvc_ObjectMeta pvc) = ?name \<and>
                Namespace (pvc_ObjectMeta pvc) = Namespace (inst_ObjectMeta inst))"
  let ?job' = "\<forall>pvc. (CreatePersistentVolumeClaim pvc, None) \<in> set ?new \<longrightarrow>
             (\<exists>job outcome. (CreateJob job, outcome) \<in> set ?new \<and>
                Name (job_ObjectMeta job) = ?name \<and>
                Namespace (job_ObjectMeta job) = Namespace (inst_ObjectMeta inst))"
  let ?bound' = "\<forall>x \<in> set ?new.
             (\<forall>key. fst x = GetJob key \<longrightarrow> key = derived_job_identity inst) \<and>
             (\<forall>pvc. fst x = CreatePersistentVolumeClaim pvc \<longrightarrow>
                Name (pvc_ObjectMeta pvc) = ?name \<and>
                Namespace (pvc_ObjectMeta pvc) = Namespace (inst_ObjectMeta inst)) \<and>
             (\<forall>job. fst x = CreateJob job \<longrightarrow>
                Name (job_ObjectMeta job) = ?name \<and>
                Namespace (job_ObjectMeta job) = Namespace (inst_ObjectMeta inst))"
  have all: "?query' \<and> ?claim' \<and> ?job' \<and> ?bound'"
    using run
  proof (cases rule: Reconcile_cases)
    case (load_failed e)
    with got show ?thesis by simp
  next
    case (job_found inst' job)
    with got have "inst' = inst" by simp
    from job_found(3) [unfolded \<open>inst' = inst\<close> key] have new: "?new =
        [(GetInstallation (req_NamespacedName req), None),
         (GetJob (derived_job_identity inst), None)]"
      by (simp add: new_calls_eq extends_fields)
    from job_found(4,5) [unfolded \<open>inst' = inst\<close> key] have "get_outcome (faults c (Suc (length (calls c))))
                   (jobs c (derived_job_identity inst)) = Inr job"
      by (simp add: get_outcome_def)
    then have ?claim' by simp
    with new show ?thesis by simp
  next
    case (query_failed inst' e)
    with got have "inst' = inst" by simp
    from query_failed(4) [unfolded \<open>inst' = inst\<close> key] have new: "?new =
        [(GetInstallation (req_NamespacedName req), None),
         (GetJob (derived_job_identity inst), Some e)]"
      by (simp add: new_calls_eq extends_fields)
    from query_failed(2) query_failed(5) [unfolded \<open>inst' = inst\<close> key] have ?claim' by auto
    with new show ?thesis by simp
  next
    case (creation inst' e c2 r)
    with got have same: "inst' = inst" by simp
    note reads = creation(3) [unfolded same key]
    from reads have c2: "c2 = c\<lparr>calls := calls c @
                    [(GetInstallation (req_NamespacedName req), None),
                     (GetJob (derived_job_identity inst), Some e)]\<rparr>"
      by (simp add: extends_def)
    note x2 = extends_fields [OF reads]
    note answered = creation(6) [unfolded same key]
    from creation(4) [unfolded same name] show ?thesis
    proof (cases rule: createJobForInstallation_cases)
      case (parse_failed gs s pe)
      from parse_failed(4) x2 have new: "?new =
        (GetInstallation (req_NamespacedName req), None) #
        (GetJob (derived_job_identity inst), Some e) # gs"
        by (simp add: new_calls_eq extends_fields)
      from parse_failed(1,2) have "pq (fst (getOutputsVolumeSize_string c2 inst)) = Inl pe"
        by simp
      with answered have ?claim' by (auto simp: c2)
      moreover from new parse_failed(5) have ?job' ?bound'
        by (auto dest: config_reads_member)
      ultimately show ?thesis using new by blast
    next
      case (pvc_failed gs s q ce)
      from pvc_failed(4) x2 have new: "?new =
        (GetInstallation (req_NamespacedName req), None) #
        (GetJob (derived_job_identity inst), Some e) # gs @
        [(CreatePersistentVolumeClaim (porter_pvc ?name inst q), Some ce)]"
        by (simp add: new_calls_eq extends_fields)
      have "(CreatePersistentVolumeClaim (porter_pvc ?name inst q), Some ce) \<in> set ?new"
        by (simp add: new)
      moreover have "Name (pvc_ObjectMeta (porter_pvc ?name inst q)) = ?name"
        and "Namespace (pvc_ObjectMeta (porter_pvc ?name inst q)) = Namespace (inst_ObjectMeta inst)"
        by (simp_all add: porter_object_names)
      ultimately have ?claim' by blast
      moreover from new pvc_failed(5) have ?job' ?bound'
        by (auto dest: config_reads_member simp: porter_object_names)
      ultimately show ?thesis using new by blast
    next
      case (job_attempted gs gs' s q img pullPolicy sa je)
      let ?pvc = "porter_pvc ?name inst q"
      let ?submitted = "porter_job ?name inst ?pvc img pullPolicy sa (porter_args inst)"
      from job_attempted(4) x2 have new: "?new =
        (GetInstallation (req_NamespacedName req), None) #
        (GetJob (derived_job_identity inst), Some e) # gs @
        [(CreatePersistentVolumeClaim ?pvc, None)] @ gs' @ [(CreateJob ?submitted, je)]"
        by (simp add: new_calls_eq)
      have "(CreatePersistentVolumeClaim ?pvc, None) \<in> set ?new"
        and "(CreateJob ?submitted, je) \<in> set ?new"
        by (simp_all add: new)
      moreover have "Name (pvc_ObjectMeta ?pvc) = ?name"
        and "Namespace (pvc_ObjectMeta ?pvc) = Namespace (inst_ObjectMeta inst)"
        and "Name (job_ObjectMeta ?submitted) = ?name"
        and "Namespace (job_ObjectMeta ?submitted) = Namespace (inst_ObjectMeta inst)"
        by (simp_all add: porter_object_names)
      ultimately have ?claim' ?job' by blast+
      moreover from new job_attempted(5,6) have ?bound'
        by (auto dest: config_reads_member simp: porter_object_names)
      ultimately show ?thesis using new by blast
    qed
  qed
  have c': "snd (Reconcile pq c req) = c'" using run by simp
  show ?thesis unfolding c' by (fact all)
qed

theorem Reconcile_derives_identity_witness:
  "(\<exists>outcome rest.
      new_calls wordpress_cluster
        (snd (Reconcile sample_ParseQuantity wordpress_cluster wordpress_request)) =
      (GetInstallation (NamespacedName ''demo'' ''wordpress''), None) #
      (GetJob (NamespacedName ''demo'' ''wordpress-5''), outcome) # rest)
   \<and> (\<exists>pvc outcome.
        (CreatePersistentVolumeClaim pvc, outcome)
          \<in> set (new_calls wordpress_cluster
                 (snd (Reconcile sample_ParseQuantity wordpress_cluster wordpress_request))) \<and>
        Name (pvc_ObjectMeta pvc) = ''wordpress-5'' \<and>
        Namespace (pvc_ObjectMeta pvc) = ''demo'')
   \<and> (\<exists>job outcome.
        (CreateJob job, outcome)
          \<in> set (new_calls wordpress_cluster
                 (snd (Reconcile sample_ParseQuantity wordpress_cluster wordpress_request))) \<and>
        Name (job_ObjectMeta job) = ''wordpress-5'' \<and>
        Namespace (job_ObjectMeta job) = ''demo'')"
proof -
  let ?new = "new_calls wordpress_cluster
                (snd (Reconcile sample_ParseQuantity wordpress_cluster wordpress_request))"
  have loaded: "faults wordpress_cluster (length (calls wordpress_cluster)) = None"
    by (simp add: wordpress_cluster_def)
  note main = Reconcile_derives_identity [OF wordpress_stored(1) wordpress_stored(3) loaded,
      of sample_ParseQuantity]
  have absent: "get_outcome (faults wordpress_cluster (Suc (length (calls wordpress_cluster))))
          (jobs wordpress_cluster (derived_job_identity wordpress)) =
        Inl (StatusError StatusReasonNotFound)
      \<and> IsNotFound (StatusError StatusReasonNotFound)
      \<and> sample_ParseQuantity (fst (getOutputsVolumeSize_string
           (wordpress_cluster\<lparr>calls := calls wordpress_cluster @
              [(GetInstallation (req_NamespacedName wordpress_request), None),
               (GetJob (derived_job_identity wordpress),
                Some (StatusError StatusReasonNotFound))]\<rparr>) wordpress)) =
         Inr (Quantity 134217728 0 BinarySI)"
    by (simp add: wordpress_cluster_def get_outcome_def IsNotFound_def
        getOutputsVolumeSize_string_def Get_ConfigMap_def next_fault_def wordpress_fields
        empty_ConfigMap_def sample_ParseQuantity_def Let_def)
  have submitted: "(CreatePersistentVolumeClaim wordpress_volume, None) \<in> set ?new"
    by (simp add: wordpress_pass new_calls_def wordpress_stored)
  from main have 1: "\<exists>outcome rest. ?new =
      (GetInstallation (NamespacedName ''demo'' ''wordpress''), None) #
      (GetJob (NamespacedName ''demo'' ''wordpress-5''), outcome) # rest"
    by (simp add: wordpress_stored wordpress_request_def)
  from main absent have 2: "\<exists>pvc outcome.
        (CreatePersistentVolumeClaim pvc, outcome) \<in> set ?new \<and>
        Name (pvc_ObjectMeta pvc) =
          Name (inst_ObjectMeta wordpress) @ ''-'' @ ResourceVersion (inst_ObjectMeta wordpress) \<and>
        Namespace (pvc_ObjectMeta pvc) = Namespace (inst_ObjectMeta wordpress)"
    by blast
  from main submitted have 3: "\<exists>job outcome.
        (CreateJob job, outcome) \<in> set ?new \<and>
        Name (job_ObjectMeta job) =
          Name (inst_ObjectMeta wordpress) @ ''-'' @ ResourceVersion (inst_ObjectMeta wordpress) \<and>
        Namespace (job_ObjectMeta job) = Namespace (inst_ObjectMeta wordpress)"
    by blast
  from 1 2 3 show ?thesis by (simp add: wordpress_fields)
qed

lemma wordpress_pass_stale_read:
  "Reconcile sample_ParseQuantity wordpress_cluster_stale_read wordpress_request =
     ((\<lparr>Requeue = False, RequeueAfter = 0\<rparr>,
       Some (Wrapped (StatusError StatusReasonAlreadyExists)
               ''error creating job for Installation demo/wordpress@5'')),
      wordpress_cluster_stale_read
        \<lparr>persistentvolumeclaims := [NamespacedName ''demo'' ''wordpress-5'' \<mapsto> wordpress_volume],
         calls :=
           [(GetInstallation (NamespacedName ''demo'' ''wordpress''), None),
            (GetJob (NamespacedName ''demo'' ''wordpress-5''), Some (StatusError StatusReasonNotFound)),
            (GetConfigMap (NamespacedName ''demo'' ''porter''), Some (StatusError StatusReasonNotFound)),
            (CreatePersistentVolumeClaim wordpress_volume, None),
            (GetConfigMap (NamespacedName ''demo'' ''porter''), Some (StatusError StatusReasonNotFound)),
            (GetConfigMap (NamespacedName ''demo'' ''porter''), Some (StatusError StatusReasonNotFound)),
            (CreateJob wordpress_job, Some (StatusError StatusReasonAlreadyExists))]\<rparr>)"
  by (simp add: run_defs wordpress_request_def wordpress_cluster_def sample_ParseQuantity_def
      wordpress_volume_def wordpress_job_def wordpress_cluster_stale_read_def)

lemma wordpress_stale_read_stored:
  "installations wordpress_cluster_stale_read (req_NamespacedName wordpress_request) = Some wordpress"
  "calls wordpress_cluster_stale_read = []"
  by (simp_all add: wordpress_cluster_stale_read_def wordpress_cluster_def wordpress_request_def)

section \<open>Already-exists on creation\<close>

text \<open>
  C3, as the code has it. When the creation of the volume claim fails because a claim of
  that name already exists, the pass returns that error; when the creation of the job fails
  because a job of that name already exists, the pass returns that error wrapped with a
  message. Neither outcome is a success.
\<close>

theorem already_exists_is_returned:
  assumes stored: "installations c (req_NamespacedName req) = Some inst"
    and exists: "ReasonForError e = StatusReasonAlreadyExists"
  shows "(\<forall>pvc. (CreatePersistentVolumeClaim pvc, Some e)
                  \<in> set (new_calls c (snd (Reconcile pq c req))) \<longrightarrow>
            snd (fst (Reconcile pq c req)) = Some e)
       \<and> (\<forall>job. (CreateJob job, Some e) \<in> set (new_calls c (snd (Reconcile pq c req))) \<longrightarrow>
            snd (fst (Reconcile pq c req)) =
              Some (Wrapped e (''error creating job for Installation '' @
                      Namespace (inst_ObjectMeta inst) @ ''/'' @
                      Name (inst_ObjectMeta inst) @ ''@'' @
                      ResourceVersion (inst_ObjectMeta inst))))"
proof -
  obtain out c' where run: "Reconcile pq c req = (out, c')"
    by (cases "Reconcile pq c req")
  from run show ?thesis
  proof (cases rule: Reconcile_trace)
    case (load_failed e')
    then show ?thesis using run by simp
  next
    case (job_found inst')
    then show ?thesis using run by simp
  next
    case (query_failed inst' e')
    then show ?thesis using run by simp
  next
    case (parse_failed inst' e' gs s pe)
    then show ?thesis using run by (auto dest: config_reads_member)
  next
    case (pvc_failed inst' e' gs q ce)
    then show ?thesis using run by (auto dest: config_reads_member)
  next
    case (job_attempted inst' e' gs gs' q img pullPolicy sa je)
    with stored show ?thesis using run
      by (auto dest: config_reads_member simp: Wrapf_def)
  qed
qed

theorem already_exists_is_returned_witness:
  "snd (fst (Reconcile sample_ParseQuantity wordpress_cluster_with_volume wordpress_request)) =
     Some (StatusError StatusReasonAlreadyExists)
   \<and> snd (fst (Reconcile sample_ParseQuantity wordpress_cluster_stale_read wordpress_request)) =
     Some (Wrapped (StatusError StatusReasonAlreadyExists)
             ''error creating job for Installation demo/wordpress@5'')"
proof -
  have "(CreatePersistentVolumeClaim wordpress_volume, Some (StatusError StatusReasonAlreadyExists))
          \<in> set (new_calls wordpress_cluster_with_volume
                 (snd (Reconcile sample_ParseQuantity wordpress_cluster_with_volume
                        wordpress_request)))"
    by (simp add: wordpress_pass_with_volume new_calls_def wordpress_stored)
  moreover have "(CreateJob wordpress_job, Some (StatusError StatusReasonAlreadyExists))
          \<in> set (new_calls wordpress_cluster_stale_read
                 (snd (Reconcile sample_ParseQuantity wordpress_cluster_stale_read
                        wordpress_request)))"
    by (simp add: wordpress_pass_stale_read new_calls_def wordpress_stale_read_stored)
  moreover have "ReasonForError (StatusError StatusReasonAlreadyExists) = StatusReasonAlreadyExists"
    by simp
  ultimately show ?thesis
    using already_exists_is_returned [OF wordpress_stored(2),
        where e = "StatusError StatusReasonAlreadyExists" and pq = sample_ParseQuantity]
      already_exists_is_returned [OF wordpress_stale_read_stored(1),
        where e = "StatusError StatusReasonAlreadyExists" and pq = sample_ParseQuantity]
    by (auto simp: wordpress_fields)
qed

text \<open>
  The claim C3 asks for success when the volume claim already exists. In the cluster where
  the claim \<open>wordpress-5\<close> is left from an earlier pass and the job is missing, the creation
  of the volume claim is answered with already-exists and the pass returns that error.
\<close>

theorem already_exists_counterexample:
  "(CreatePersistentVolumeClaim wordpress_volume, Some (StatusError StatusReasonAlreadyExists))
     \<in> set (calls (snd (Reconcile sample_ParseQuantity wordpress_cluster_with_volume
                          wordpress_request)))
   \<and> snd (fst (Reconcile sample_ParseQuantity wordpress_cluster_with_volume wordpress_request))
       \<noteq> None"
  by (simp add: wordpress_pass_with_volume)

lemma split_at_last:
  assumes "pre @ x # post = xs @ [z]" and "P x" and "\<forall>y \<in> set xs. \<not> P y"
  shows "pre = xs"
proof (cases post rule: rev_cases)
  case Nil
  with assms(1) show ?thesis by simp
next
  case (snoc ys y)
  with assms(1) have "(pre @ x # ys) @ [y] = xs @ [z]" by simp
  then have "xs = pre @ x # ys" by (simp only: append1_eq_conv)
  with assms(2,3) show ?thesis by simp
qed

section \<open>Ordering of the two creations\<close>

text \<open>
  C7. Whenever a pass submits a job, it has submitted the volume claim earlier in the same
  pass, and that submission succeeded. When the submission of the volume claim is answered
  with an error, the pass submits no job and returns that error.
\<close>

theorem volume_claim_before_job:
  "(\<forall>pre x post. new_calls c (snd (Reconcile pq c req)) = pre @ x # post \<and>
       is_create_job (fst x) \<longrightarrow>
       (\<exists>y \<in> set pre. is_create_pvc (fst y) \<and> snd y = None))
   \<and> (\<forall>pvc e. (CreatePersistentVolumeClaim pvc, Some e)
                  \<in> set (new_calls c (snd (Reconcile pq c req))) \<longrightarrow>
         list_all (\<lambda>x. \<not> is_create_job (fst x)) (new_calls c (snd (Reconcile pq c req))) \<and>
         snd (fst (Reconcile pq c req)) = Some e)"
proof -
  obtain out c' where run: "Reconcile pq c req = (out, c')"
    by (cases "Reconcile pq c req")
  let ?first = "\<forall>pre x post. new_calls c c' = pre @ x # post \<and> is_create_job (fst x) \<longrightarrow>
       (\<exists>y \<in> set pre. is_create_pvc (fst y) \<and> snd y = None)"
  let ?second = "\<forall>pvc e. (CreatePersistentVolumeClaim pvc, Some e) \<in> set (new_calls c c') \<longrightarrow>
         list_all (\<lambda>x. \<not> is_create_job (fst x)) (new_calls c c') \<and> snd out = Some e"
  have quiet: ?first if "\<forall>y \<in> set (new_calls c c'). \<not> is_create_job (fst y)"
  proof (intro allI impI)
    fix pre x post
    assume a: "new_calls c c' = pre @ x # post \<and> is_create_job (fst x)"
    then have "x \<in> set (new_calls c c')" by simp
    with that a show "\<exists>y \<in> set pre. is_create_pvc (fst y) \<and> snd y = None" by blast
  qed
  have unfailed: ?second
    if "\<forall>y \<in> set (new_calls c c'). \<not> is_create_pvc (fst y) \<or> snd y = None"
    using that by fastforce
  have "?first \<and> ?second"
    using run
  proof (cases rule: Reconcile_trace)
    case (load_failed e)
    then have "\<forall>y \<in> set (new_calls c c'). \<not> is_create_job (fst y)"
      and "\<forall>y \<in> set (new_calls c c'). \<not> is_create_pvc (fst y) \<or> snd y = None"
      by simp_all
    then show ?thesis by (intro conjI quiet unfailed)
  next
    case (job_found inst)
    then have "\<forall>y \<in> set (new_calls c c'). \<not> is_create_job (fst y)"
      and "\<forall>y \<in> set (new_calls c c'). \<not> is_create_pvc (fst y) \<or> snd y = None"
      by simp_all
    then show ?thesis by (intro conjI quiet unfailed)
  next
    case (query_failed inst e)
    then have "\<forall>y \<in> set (new_calls c c'). \<not> is_create_job (fst y)"
      and "\<forall>y \<in> set (new_calls c c'). \<not> is_create_pvc (fst y) \<or> snd y = None"
      by simp_all
    then show ?thesis by (intro conjI quiet unfailed)
  next
    case (parse_failed inst e gs s pe)
    then have "\<forall>y \<in> set (new_calls c c'). \<not> is_create_job (fst y)"
      and "\<forall>y \<in> set (new_calls c c'). \<not> is_create_pvc (fst y) \<or> snd y = None"
      by (auto dest: config_reads_no_create)
    then show ?thesis by (intro conjI quiet unfailed)
  next
    case (pvc_failed inst e gs q ce)
    then have nj: "\<forall>y \<in> set (new_calls c c'). \<not> is_create_job (fst y)"
      by (auto dest: config_reads_no_create)
    then have "list_all (\<lambda>x. \<not> is_create_job (fst x)) (new_calls c c')"
      by (simp add: list_all_iff)
    moreover have "e' = ce" if "(CreatePersistentVolumeClaim pvc, Some e') \<in> set (new_calls c c')"
      for pvc e'
      using that pvc_failed by (auto dest: config_reads_member)
    moreover have "snd out = Some ce" using pvc_failed by simp
    ultimately have ?second by blast
    with quiet [OF nj] show ?thesis by (intro conjI)
  next
    case (job_attempted inst e gs gs' q img pullPolicy sa je)
    let ?jobName = "req_Name req @ ''-'' @ ResourceVersion (inst_ObjectMeta inst)"
    let ?front = "[(GetInstallation (req_NamespacedName req), None),
          (GetJob (NamespacedName (req_Namespace req) ?jobName), Some e)] @ gs @
         [(CreatePersistentVolumeClaim (porter_pvc ?jobName inst q), None)] @ gs'"
    let ?job = "(CreateJob (porter_job ?jobName inst (porter_pvc ?jobName inst q)
                   img pullPolicy sa (porter_args inst)), je)"
    from job_attempted have new: "new_calls c c' = ?front @ [?job]" by simp
    from job_attempted have front: "\<forall>y \<in> set ?front. \<not> is_create_job (fst y)"
      by (auto dest: config_reads_no_create)
    have claim_first: "\<exists>y \<in> set ?front. is_create_pvc (fst y) \<and> snd y = None"
      by simp
    have ?first
    proof (intro allI impI)
      fix pre x post
      assume a: "new_calls c c' = pre @ x # post \<and> is_create_job (fst x)"
      with new have "pre @ x # post = ?front @ [?job]" by (simp only:)
      from split_at_last [OF this, of "\<lambda>x. is_create_job (fst x)"] a front
      have "pre = ?front" by blast
      with claim_first show "\<exists>y \<in> set pre. is_create_pvc (fst y) \<and> snd y = None"
        by (simp only:)
    qed
    moreover
    from job_attempted
    have "\<forall>y \<in> set (new_calls c c'). \<not> is_create_pvc (fst y) \<or> snd y = None"
      by (auto dest: config_reads_no_create)
    then have ?second by (rule unfailed)
    ultimately show ?thesis by (intro conjI)
  qed
  with run show ?thesis by (simp only: fst_conv snd_conv)
qed

theorem volume_claim_before_job_witness:
  "(\<exists>y \<in> set [(GetInstallation (NamespacedName ''demo'' ''wordpress''), None),
            (GetJob (NamespacedName ''demo'' ''wordpress-5''), Some (StatusError StatusReasonNotFound)),
            (GetConfigMap (NamespacedName ''demo'' ''porter''), Some (StatusError StatusReasonNotFound)),
            (CreatePersistentVolumeClaim wordpress_volume, None),
            (GetConfigMap (NamespacedName ''demo'' ''porter''), Some (StatusError StatusReasonNotFound)),
            (GetConfigMap (NamespacedName ''demo'' ''porter''), Some (StatusError StatusReasonNotFound))].
       is_create_pvc (fst y) \<and> snd y = None)
   \<and> list_all (\<lambda>x. \<not> is_create_job (fst x))
        (new_calls wordpress_cluster_with_volume
           (snd (Reconcile sample_ParseQuantity wordpress_cluster_with_volume wordpress_request)))
   \<and> snd (fst (Reconcile sample_ParseQuantity wordpress_cluster_with_volume wordpress_request)) =
        Some (StatusError StatusReasonAlreadyExists)"
proof -
  let ?pre = "[(GetInstallation (NamespacedName ''demo'' ''wordpress''), None),
            (GetJob (NamespacedName ''demo'' ''wordpress-5''), Some (StatusError StatusReasonNotFound)),
            (GetConfigMap (NamespacedName ''demo'' ''porter''), Some (StatusError StatusReasonNotFound)),
            (CreatePersistentVolumeClaim wordpress_volume, None),
            (GetConfigMap (NamespacedName ''demo'' ''porter''), Some (StatusError StatusReasonNotFound)),
            (GetConfigMap (NamespacedName ''demo'' ''porter''), Some (StatusError StatusReasonNotFound))]"
  have 1: "new_calls wordpress_cluster
             (snd (Reconcile sample_ParseQuantity wordpress_cluster wordpress_request)) =
           ?pre @ (CreateJob wordpress_job, None) # []"
    and 2: "is_create_job (fst (CreateJob wordpress_job, None :: error option))"
    by (simp_all add: wordpress_pass new_calls_def wordpress_stored)
  have 3: "(CreatePersistentVolumeClaim wordpress_volume, Some (StatusError StatusReasonAlreadyExists))
          \<in> set (new_calls wordpress_cluster_with_volume
                 (snd (Reconcile sample_ParseQuantity wordpress_cluster_with_volume
                        wordpress_request)))"
    by (simp add: wordpress_pass_with_volume new_calls_def wordpress_stored)
  from volume_claim_before_job [of wordpress_cluster sample_ParseQuantity wordpress_request] 1 2
  have "\<exists>y \<in> set ?pre. is_create_pvc (fst y) \<and> snd y = None"
    by blast
  moreover
  from volume_claim_before_job [of wordpress_cluster_with_volume sample_ParseQuantity
      wordpress_request] 3
  have "list_all (\<lambda>x. \<not> is_create_job (fst x))
        (new_calls wordpress_cluster_with_volume
           (snd (Reconcile sample_ParseQuantity wordpress_cluster_with_volume wordpress_request)))
   \<and> snd (fst (Reconcile sample_ParseQuantity wordpress_cluster_with_volume wordpress_request)) =
        Some (StatusError StatusReasonAlreadyExists)"
    by blast
  ultimately show ?thesis by blast
qed

section \<open>The submitted job\<close>

text \<open>
  C9 at the pass that creates the job \<open>wordpress-5\<close>. The job the pass stores asks for one
  completion, has a backoff limit of zero and a pod restart policy of Never. Its own
  metadata carries no owner reference: the reference to the Installation that the code
  builds is in the metadata of the pod template.
\<close>

theorem submitted_job_lacks_owner_reference:
  "map_option (\<lambda>job. OwnerReferences (job_ObjectMeta job))
     (jobs (snd (Reconcile sample_ParseQuantity wordpress_cluster wordpress_request))
        (NamespacedName ''demo'' ''wordpress-5'')) = Some []
   \<and> map_option (\<lambda>job. OwnerReferences (tmpl_ObjectMeta (Template (job_Spec job))))
       (jobs (snd (Reconcile sample_ParseQuantity wordpress_cluster wordpress_request))
          (NamespacedName ''demo'' ''wordpress-5'')) =
     Some [\<lparr>owner_APIVersion = ''porter.sh/v1'', owner_Kind = ''Installation'',
            owner_Name = ''wordpress'', owner_UID = ''uid-1'',
            owner_BlockOwnerDeletion = Some True\<rparr>]
   \<and> map_option (\<lambda>job. (Completions (job_Spec job), BackoffLimit (job_Spec job),
                          RestartPolicy (tmpl_Spec (Template (job_Spec job)))))
       (jobs (snd (Reconcile sample_ParseQuantity wordpress_cluster wordpress_request))
          (NamespacedName ''demo'' ''wordpress-5'')) =
     Some (Some 1, Some 0, ''Never'')"
proof -
  have "OwnerReferences (job_ObjectMeta wordpress_job) = []"
    and "OwnerReferences (tmpl_ObjectMeta (Template (job_Spec wordpress_job))) =
           [\<lparr>owner_APIVersion = ''porter.sh/v1'', owner_Kind = ''Installation'',
             owner_Name = ''wordpress'', owner_UID = ''uid-1'',
             owner_BlockOwnerDeletion = Some True\<rparr>]"
    and "Completions (job_Spec wordpress_job) = Some 1"
    and "BackoffLimit (job_Spec wordpress_job) = Some 0"
    and "RestartPolicy (tmpl_Spec (Template (job_Spec wordpress_job))) = ''Never''"
    by (simp_all add: wordpress_job_def porter_job_def wordpress_def empty_ObjectMeta_def)
  then show ?thesis
    by (simp add: wordpress_pass)
qed

section \<open>The command line of porter\<close>

lemma foldl_snoc_map: "foldl (\<lambda>args x. args @ [f x]) args xs = args @ map f xs"
  by (induction xs arbitrary: args) simp_all

text \<open>
  C5. The arguments of porter start with the action itself when it is a core action, and
  with \<open>invoke\<close> and \<open>--action=\<close> followed by the action otherwise. Then come the name
  of the Installation, the bundle reference, the two debug flags and the driver, then one
  \<open>-c=\<close> flag per credential set in list order, one \<open>-p=\<close> flag per parameter set in list
  order, and one \<open>--param=key=value\<close> flag per entry of the parameters. These are the
  arguments of the container of the job.
\<close>

theorem porter_args_layout:
  "porter_args inst =
     (if IsCoreAction (Action (inst_Spec inst))
      then [Action (inst_Spec inst)]
      else [''invoke'', ''--action='' @ Action (inst_Spec inst)]) @
     [Name (inst_ObjectMeta inst),
      ''--reference='' @ Reference (inst_Spec inst),
      ''--debug'', ''--debug-plugins'', ''--driver=kubernetes''] @
     map (\<lambda>c. ''-c='' @ c) (CredentialSets (inst_Spec inst)) @
     map (\<lambda>p. ''-p='' @ p) (ParameterSets (inst_Spec inst)) @
     map (\<lambda>(k, v). ''--param='' @ k @ ''='' @ v) (Parameters (inst_Spec inst))
   \<and> map Args (Containers (tmpl_Spec (Template (job_Spec
        (porter_job jobName inst pvc img pullPolicy serviceAccount (porter_args inst)))))) =
       [porter_args inst]"
proof -
  have "foldl (\<lambda>args (k, v). args @ [''--param='' @ k @ ''='' @ v]) args ps =
        args @ map (\<lambda>(k, v). ''--param='' @ k @ ''='' @ v) ps" for args ps
    by (induction ps arbitrary: args) auto
  then show ?thesis
    by (simp add: porter_args_def Let_def foldl_snoc_map porter_job_def)
qed

theorem porter_args_layout_witness:
  "porter_args wordpress =
     [''install'', ''wordpress'', ''--reference=example.com/wordpress-bundle:v1'',
      ''--debug'', ''--debug-plugins'', ''--driver=kubernetes'']
   \<and> porter_args wordpress_status_check =
     [''invoke'', ''--action=status-check'', ''wordpress'',
      ''--reference=example.com/wordpress-bundle:v1'',
      ''--debug'', ''--debug-plugins'', ''--driver=kubernetes'',
      ''-c=azure'', ''-c=kube'', ''-p=prod'', ''--param=debug=true'']"
  using porter_args_layout [of wordpress] porter_args_layout [of wordpress_status_check]
  by (simp add: wordpress_status_check_def wordpress_def empty_ObjectMeta_def IsCoreAction_def)

section \<open>Malformed volume size\<close>

text \<open>
  C6. When the resolved volume size does not parse, the creation path returns the error of
  the parser, wrapped with the size in the message, and submits neither a volume claim nor
  a job: both stores are as before and the pass has made no creation request.
\<close>

theorem malformed_volume_size_rejected:
  assumes malformed: "pq (fst (getOutputsVolumeSize_string c inst)) = Inl e"
  shows "fst (createJobForInstallation pq c jobName inst) =
           Some (Wrapped e (''invalid outputsVolumeSize '' @
                            fst (getOutputsVolumeSize_string c inst)))
       \<and> persistentvolumeclaims (snd (createJobForInstallation pq c jobName inst)) =
           persistentvolumeclaims c
       \<and> jobs (snd (createJobForInstallation pq c jobName inst)) = jobs c
       \<and> list_all (\<lambda>x. \<not> is_create (fst x))
           (new_calls c (snd (createJobForInstallation pq c jobName inst)))"
proof -
  obtain r c' where run: "createJobForInstallation pq c jobName inst = (r, c')"
    by (cases "createJobForInstallation pq c jobName inst")
  have "r = Some (Wrapped e (''invalid outputsVolumeSize '' @
                            fst (getOutputsVolumeSize_string c inst)))
       \<and> persistentvolumeclaims c' = persistentvolumeclaims c
       \<and> jobs c' = jobs c
       \<and> list_all (\<lambda>x. \<not> is_create (fst x)) (new_calls c c')"
    using run
  proof (cases rule: createJobForInstallation_cases)
    case (parse_failed gs s pe)
    from parse_failed(1,2) malformed have "pe = e" by simp
    moreover from parse_failed(4) have "new_calls c c' = gs"
      by (simp add: new_calls_eq extends_fields)
    moreover from parse_failed(5) have "list_all (\<lambda>x. \<not> is_create (fst x)) gs"
      by (auto simp: list_all_iff dest: config_reads_no_create)
    ultimately show ?thesis
      using parse_failed extends_fields [OF parse_failed(4)] by simp
  next
    case (pvc_failed gs s q ce)
    with malformed show ?thesis by simp
  next
    case (job_attempted gs gs' s q img pullPolicy sa je)
    with malformed show ?thesis by simp
  qed
  with run show ?thesis by (simp only: fst_conv snd_conv)
qed

theorem malformed_volume_size_rejected_witness:
  "fst (createJobForInstallation sample_ParseQuantity wordpress_cluster ''wordpress-5''
          wordpress_notasize) =
     Some (Wrapped ErrFormatWrong
             ''invalid outputsVolumeSize notasize'')
   \<and> persistentvolumeclaims (snd (createJobForInstallation sample_ParseQuantity
         wordpress_cluster ''wordpress-5'' wordpress_notasize)) =
       persistentvolumeclaims wordpress_cluster
   \<and> jobs (snd (createJobForInstallation sample_ParseQuantity
         wordpress_cluster ''wordpress-5'' wordpress_notasize)) = jobs wordpress_cluster
   \<and> list_all (\<lambda>x. \<not> is_create (fst x))
       (new_calls wordpress_cluster (snd (createJobForInstallation sample_ParseQuantity
         wordpress_cluster ''wordpress-5'' wordpress_notasize)))"
proof -
  have s: "fst (getOutputsVolumeSize_string wordpress_cluster wordpress_notasize) = ''notasize''"
    by (simp add: getOutputsVolumeSize_string_def wordpress_notasize_def)
  have "sample_ParseQuantity
          (fst (getOutputsVolumeSize_string wordpress_cluster wordpress_notasize)) =
        Inl ErrFormatWrong"
    by (simp add: s sample_ParseQuantity_def)
  with malformed_volume_size_rejected [where pq = sample_ParseQuantity
      and c = wordpress_cluster and inst = wordpress_notasize
      and e = ErrFormatWrong
      and jobName = "''wordpress-5''"]
  show ?thesis
    by (simp add: s)
qed

section \<open>Three-tier precedence\<close>

text \<open>
  C4. Each of the three settings is resolved by the precedence of the specification, with
  the defaults 128Mi, latest and the empty string. The version and the service account are
  always values; the volume size is the parse of the resolved string, so that without a
  field of its own and without a retrievable configmap it is the parse of 128Mi, which is
  no error for a parser that accepts 128Mi.
\<close>

theorem three_tier_precedence:
  "fst (getOutputsVolumeSize_string c inst) =
     resolve_setting (OutputsVolumeSize (inst_Spec inst)) (porter_configmap c inst)
       ''outputsVolumeSize'' ''128Mi''
   \<and> fst (getOutputsVolumeSize pq c inst) =
       (case pq (fst (getOutputsVolumeSize_string c inst)) of
          Inl err \<Rightarrow> Inl (Wrapped err (''invalid outputsVolumeSize '' @
                                       fst (getOutputsVolumeSize_string c inst)))
        | Inr qty \<Rightarrow> Inr qty)
   \<and> fst (fst (getPorterImageVersion c inst)) =
       resolve_setting (PorterVersion (inst_Spec inst)) (porter_configmap c inst)
         ''porterVersion'' ''latest''
   \<and> fst (getPorterAgentServiceAccount c inst) =
       resolve_setting (ServiceAccount (inst_Spec inst)) (porter_configmap c inst)
         ''serviceAccount'' []
   \<and> (\<forall>qty. OutputsVolumeSize (inst_Spec inst) = [] \<and> porter_configmap c inst = None \<and>
             pq ''128Mi'' = Inr qty \<longrightarrow>
         fst (getOutputsVolumeSize pq c inst) = Inr qty)"
proof -
  have size: "fst (getOutputsVolumeSize_string c inst) =
     resolve_setting (OutputsVolumeSize (inst_Spec inst)) (porter_configmap c inst)
       ''outputsVolumeSize'' ''128Mi''"
    by (simp add: getOutputsVolumeSize_string_def resolve_setting_def porter_configmap_def
        empty_ConfigMap_def Let_def split: prod.splits sum.splits option.splits)
  have parse: "fst (getOutputsVolumeSize pq c inst) =
       (case pq (fst (getOutputsVolumeSize_string c inst)) of
          Inl err \<Rightarrow> Inl (Wrapped err (''invalid outputsVolumeSize '' @
                                       fst (getOutputsVolumeSize_string c inst)))
        | Inr qty \<Rightarrow> Inr qty)"
    by (simp add: getOutputsVolumeSize_def split: prod.splits sum.splits)
  have version: "fst (fst (getPorterImageVersion c inst)) =
       resolve_setting (PorterVersion (inst_Spec inst)) (porter_configmap c inst)
         ''porterVersion'' ''latest''"
    by (simp add: getPorterImageVersion_def resolve_setting_def porter_configmap_def
        empty_ConfigMap_def Let_def split: prod.splits sum.splits option.splits)
  have account: "fst (getPorterAgentServiceAccount c inst) =
       resolve_setting (ServiceAccount (inst_Spec inst)) (porter_configmap c inst)
         ''serviceAccount'' []"
    by (simp add: getPorterAgentServiceAccount_def resolve_setting_def porter_configmap_def
        empty_ConfigMap_def Let_def split: prod.splits sum.splits option.splits)
  have degraded: "fst (getOutputsVolumeSize pq c inst) = Inr qty"
    if "OutputsVolumeSize (inst_Spec inst) = [] \<and> porter_configmap c inst = None \<and>
        pq ''128Mi'' = Inr qty" for qty
    using that by (simp add: parse size resolve_setting_def)
  from size parse version account degraded show ?thesis by blast
qed

lemma wordpress_configmaps:
  "porter_configmap wordpress_cluster wordpress = None"
  "porter_configmap wordpress_cluster_with_config wordpress =
     Some \<lparr>cm_ObjectMeta = empty_ObjectMeta\<lparr>Name := ''porter'', Namespace := ''demo''\<rparr>,
           Data = [''outputsVolumeSize'' \<mapsto> ''256Mi'', ''porterVersion'' \<mapsto> ''v1.2.3'']\<rparr>"
  "porter_configmap wordpress_cluster_with_config wordpress_64Mi =
     Some \<lparr>cm_ObjectMeta = empty_ObjectMeta\<lparr>Name := ''porter'', Namespace := ''demo''\<rparr>,
           Data = [''outputsVolumeSize'' \<mapsto> ''256Mi'', ''porterVersion'' \<mapsto> ''v1.2.3'']\<rparr>"
  by (simp_all add: porter_configmap_def Get_ConfigMap_def get_outcome_def next_fault_def
      wordpress_cluster_with_config_def wordpress_cluster_def wordpress_64Mi_def
      wordpress_fields Let_def)

theorem three_tier_precedence_witness:
  "fst (getOutputsVolumeSize_string wordpress_cluster_with_config wordpress_64Mi) = ''64Mi''
   \<and> fst (getOutputsVolumeSize_string wordpress_cluster_with_config wordpress) = ''256Mi''
   \<and> fst (fst (getPorterImageVersion wordpress_cluster_with_config wordpress)) = ''v1.2.3''
   \<and> fst (getOutputsVolumeSize_string wordpress_cluster wordpress) = ''128Mi''
   \<and> fst (fst (getPorterImageVersion wordpress_cluster wordpress)) = ''latest''
   \<and> fst (getPorterAgentServiceAccount wordpress_cluster wordpress) = []
   \<and> fst (getOutputsVolumeSize sample_ParseQuantity wordpress_cluster wordpress) =
       Inr (Quantity 134217728 0 BinarySI)"
proof -
  have "OutputsVolumeSize (inst_Spec wordpress) = [] \<and>
        porter_configmap wordpress_cluster wordpress = None \<and>
        sample_ParseQuantity ''128Mi'' = Inr (Quantity 134217728 0 BinarySI)"
    by (simp add: wordpress_fields wordpress_configmaps sample_ParseQuantity_def)
  with three_tier_precedence [of wordpress_cluster wordpress sample_ParseQuantity]
  have "fst (getOutputsVolumeSize sample_ParseQuantity wordpress_cluster wordpress) =
       Inr (Quantity 134217728 0 BinarySI)"
    by blast
  then show ?thesis
    using three_tier_precedence [of wordpress_cluster_with_config wordpress_64Mi sample_ParseQuantity]
      three_tier_precedence [of wordpress_cluster_with_config wordpress sample_ParseQuantity]
      three_tier_precedence [of wordpress_cluster wordpress sample_ParseQuantity]
    by (simp add: wordpress_configmaps resolve_setting_def wordpress_fields wordpress_64Mi_def)
qed

section \<open>Failure of the load\<close>

text \<open>
  C8 at a load that fails in transport: the error is not a not-found error, the
  Installation is stored, and the pass returns success without an error.
\<close>

theorem load_failure_is_swallowed:
  "\<not> IsNotFound (ErrorString ''connection refused'')
   \<and> installations wordpress_cluster_unreachable (req_NamespacedName wordpress_request) =
       Some wordpress
   \<and> Reconcile sample_ParseQuantity wordpress_cluster_unreachable wordpress_request =
       ((\<lparr>Requeue = False, RequeueAfter = 0\<rparr>, None),
        wordpress_cluster_unreachable
          \<lparr>calls := [(GetInstallation (NamespacedName ''demo'' ''wordpress''),
                      Some (ErrorString ''connection refused''))]\<rparr>)"
  by (simp add: IsNotFound_def Reconcile_def Get_Installation_def get_outcome_def
      outcome_error_def next_fault_def record_call_def wordpress_cluster_unreachable_def
      wordpress_cluster_def wordpress_request_def Let_def)

section \<open>Passes over clusters that differ in the status fields\<close>

lemma set_status_fields [simp]:
  "installations (set_status f c) key =
     map_option (\<lambda>inst. inst\<lparr>inst_Status := f inst\<rparr>) (installations c key)"
  "jobs (set_status f c) = jobs c"
  "persistentvolumeclaims (set_status f c) = persistentvolumeclaims c"
  "configmaps (set_status f c) = configmaps c"
  "faults (set_status f c) = faults c"
  "calls (set_status f c) = calls c"
  by (simp_all add: set_status_def)

lemma set_status_calls: "set_status f (c\<lparr>calls := xs\<rparr>) = (set_status f c)\<lparr>calls := xs\<rparr>"
  by (simp add: set_status_def)

lemma set_status_extends: "extends c gs c' \<Longrightarrow> extends (set_status f c) gs (set_status f c')"
  by (simp add: extends_def set_status_def)

lemma Get_ConfigMap_set_status:
  "Get_ConfigMap (set_status f c) key =
     (fst (Get_ConfigMap c key), set_status f (snd (Get_ConfigMap c key)))"
  by (simp add: Get_ConfigMap_def Let_def next_fault_def record_call_def set_status_def)

lemma getOutputsVolumeSize_set_status:
  "getOutputsVolumeSize pq (set_status f c) (inst\<lparr>inst_Status := s\<rparr>) =
     (fst (getOutputsVolumeSize pq c inst), set_status f (snd (getOutputsVolumeSize pq c inst)))"
  by (simp add: getOutputsVolumeSize_def getOutputsVolumeSize_string_def
      Get_ConfigMap_set_status Let_def case_prod_beta split: sum.split option.split)

lemma getPorterImageVersion_set_status:
  "getPorterImageVersion (set_status f c) (inst\<lparr>inst_Status := s\<rparr>) =
     (fst (getPorterImageVersion c inst), set_status f (snd (getPorterImageVersion c inst)))"
  by (simp add: getPorterImageVersion_def
      Get_ConfigMap_set_status Let_def case_prod_beta split: sum.split option.split)

lemma getPorterAgentServiceAccount_set_status:
  "getPorterAgentServiceAccount (set_status f c) (inst\<lparr>inst_Status := s\<rparr>) =
     (fst (getPorterAgentServiceAccount c inst),
      set_status f (snd (getPorterAgentServiceAccount c inst)))"
  by (simp add: getPorterAgentServiceAccount_def
      Get_ConfigMap_set_status Let_def case_prod_beta split: sum.split option.split)

lemma Create_PersistentVolumeClaim_set_status:
  "Create_PersistentVolumeClaim (set_status f c) pvc =
     (fst (Create_PersistentVolumeClaim c pvc),
      set_status f (snd (Create_PersistentVolumeClaim c pvc)))"
  by (simp add: Create_PersistentVolumeClaim_def Let_def next_fault_def record_call_def
      set_status_def)

lemma Create_Job_set_status:
  "Create_Job (set_status f c) job =
     (fst (Create_Job c job), set_status f (snd (Create_Job c job)))"
  by (simp add: Create_Job_def Let_def next_fault_def record_call_def set_status_def)

lemma Get_Job_set_status:
  "Get_Job (set_status f c) key = (fst (Get_Job c key), set_status f (snd (Get_Job c key)))"
  by (simp add: Get_Job_def Let_def next_fault_def record_call_def set_status_def)

lemma built_objects_ignore_status:
  "porter_pvc jobName (inst\<lparr>inst_Status := s\<rparr>) q = porter_pvc jobName inst q"
  "porter_args (inst\<lparr>inst_Status := s\<rparr>) = porter_args inst"
  "porter_job jobName (inst\<lparr>inst_Status := s\<rparr>) pvc img pp sa args =
     porter_job jobName inst pvc img pp sa args"
  by (simp_all add: porter_pvc_def porter_args_def porter_job_def)

lemma createJobForInstallation_set_status:
  "createJobForInstallation pq (set_status f c) jobName (inst\<lparr>inst_Status := s\<rparr>) =
     (fst (createJobForInstallation pq c jobName inst),
      set_status f (snd (createJobForInstallation pq c jobName inst)))"
  by (simp add: createJobForInstallation_def getOutputsVolumeSize_set_status
      getPorterImageVersion_set_status getPorterAgentServiceAccount_set_status
      Create_PersistentVolumeClaim_set_status Create_Job_set_status built_objects_ignore_status
      Let_def case_prod_beta split: sum.split option.split)

lemma Get_Installation_set_status:
  "Get_Installation (set_status f c) key =
     (map_sum id (\<lambda>inst. inst\<lparr>inst_Status := f inst\<rparr>) (fst (Get_Installation c key)),
      set_status f (snd (Get_Installation c key)))"
  by (auto simp: Get_Installation_def Let_def next_fault_def record_call_def set_status_def
      get_outcome_def outcome_error_def split: option.splits)

lemma Reconcile_installations:
  "installations (snd (Reconcile pq c req)) = installations c"
proof -
  obtain out c' where run: "Reconcile pq c req = (out, c')"
    by (cases "Reconcile pq c req")
  from run have "installations c' = installations c"
  proof (cases rule: Reconcile_cases)
    case (creation inst e c2 r)
    from creation(4) have "installations c' = installations c2"
      by (cases rule: createJobForInstallation_cases) (simp_all add: extends_fields)
    with extends_fields [OF creation(3)] show ?thesis by simp
  qed (simp_all add: extends_fields)
  with run show ?thesis by simp
qed

section \<open>The status fields\<close>

text \<open>
  C10, as the code has it. A pass writes nothing to the Installation: every stored
  Installation, status and desired state alike, is after the pass what it was before. A
  pass does not read the status fields either: with any other status in the stored
  Installations the pass returns the same result and leaves the same cluster.
\<close>

theorem status_neither_written_nor_read:
  "installations (snd (Reconcile pq c req)) = installations c
   \<and> Reconcile pq (set_status f c) req =
       (fst (Reconcile pq c req), set_status f (snd (Reconcile pq c req)))"
proof -
  have "Reconcile pq (set_status f c) req =
       (fst (Reconcile pq c req), set_status f (snd (Reconcile pq c req)))"
    by (simp add: Reconcile_def Get_Installation_set_status Get_Job_set_status
        createJobForInstallation_set_status Let_def case_prod_beta
        split: sum.split option.split)
  with Reconcile_installations show ?thesis by blast
qed

text \<open>
  The claim C10 has the pass populate the status fields. After the pass that creates the
  job \<open>wordpress-5\<close>, the stored Installation still has its two status references empty.
\<close>

theorem status_write_back_counterexample:
  "jobs (snd (Reconcile sample_ParseQuantity wordpress_cluster wordpress_request))
     (NamespacedName ''demo'' ''wordpress-5'') = Some wordpress_job
   \<and> map_option inst_Status
       (installations (snd (Reconcile sample_ParseQuantity wordpress_cluster wordpress_request))
          (NamespacedName ''demo'' ''wordpress'')) =
     Some \<lparr>ActiveJob = LocalObjectReference [], LastJob = LocalObjectReference []\<rparr>"
proof -
  have "inst_Status wordpress =
          \<lparr>ActiveJob = LocalObjectReference [], LastJob = LocalObjectReference []\<rparr>"
    by (simp add: wordpress_def)
  moreover have "installations wordpress_cluster (NamespacedName ''demo'' ''wordpress'') =
          Some wordpress"
    by (simp add: wordpress_cluster_def)
  ultimately show ?thesis
    by (simp add: wordpress_pass)
qed

end
